theory Spec2Isabelle
  imports Complex_Main
begin

section \<open>The beam container of pyDFCSR\_2D (beams.py)\<close>

text \<open>
  The class \<open>Beam\<close> of \<open>src/pyDFCSR_2D/beams.py\<close> is embedded method by method.
  Conventions of the embedding:
  \<^item> a numpy float and a one-dimensional numpy float array are a \<open>real\<close> and a
    \<open>real list\<close>: arithmetic is exact, so rounding, \<open>inf\<close> and \<open>nan\<close> are outside
    the model;
  \<^item> a raised exception is a value of \<open>error\<close>; a property (no mutation) returns
    \<open>error + 'a\<close>, a mutating method returns \<open>error option \<times> Beam\<close>: the exception, if
    any, and the object as the method left it;
  \<^item> the functions of numpy, scipy and bmadx that the class calls are not part of the
    repository; each is written out below from its documented behaviour and named after
    the library function.
\<close>

subsection \<open>Python values and exceptions\<close>

datatype pyval = Str string | Num real

datatype error =
  AssertionError | Exception | KeyError | IndexError | ValueError | TypeError
  | LinAlgError | OSError

subsection \<open>numpy on one-dimensional arrays\<close>

text \<open>\<open>np.mean(a)\<close> and \<open>np.std(a)\<close> (the population standard deviation). On an empty
  array numpy returns \<open>nan\<close> with a warning.\<close>

definition np_mean :: "real list \<Rightarrow> real" where
  "np_mean a = sum_list a / real (length a)"

definition np_std :: "real list \<Rightarrow> real" where
  "np_std a = sqrt (np_mean (map (\<lambda>v. (v - np_mean a) * (v - np_mean a)) a))"

text \<open>
  \<open>np.polyfit(xs, ys, deg=1)\<close>, returning the pair \<open>(a, b)\<close> of the line \<open>a * x + b\<close>.
  numpy raises \<open>TypeError\<close> for an empty \<open>xs\<close> and for arrays of different lengths. It
  then divides each column of the Vandermonde matrix \<open>[xs, 1]\<close> by its Euclidean norm
  and solves the scaled system by \<open>lstsq\<close>, which returns the least-squares solution of
  minimum norm; the coefficients are divided by the column norms again.
  \<^item> When every entry of \<open>xs\<close> is zero the first column norm is zero, the scaled matrix
    is \<open>0/0\<close> and \<open>lstsq\<close> raises \<open>LinAlgError\<close>.
  \<^item> When the entries of \<open>xs\<close> are all equal to one \<open>c \<noteq> 0\<close> (in particular for a single
    point) the matrix has rank one; numpy warns (\<open>RankWarning\<close>) and returns the
    minimum-norm solution of the scaled system, \<open>a = mean ys / (2 c)\<close> and
    \<open>b = mean ys / 2\<close>.
  \<^item> Otherwise the solution is the unique least-squares line.
\<close>

definition np_polyfit1 :: "real list \<Rightarrow> real list \<Rightarrow> error + (real \<times> real)" where
  "np_polyfit1 xs ys =
    (if xs = [] then Inl TypeError
     else if length xs \<noteq> length ys then Inl TypeError
     else
       let n = real (length xs);
           sx = sum_list xs;
           sxx = sum_list (map (\<lambda>v. v * v) xs);
           sy = sum_list ys;
           sxy = sum_list (map2 (\<lambda>u v. u * v) xs ys);
           d = n * sxx - sx * sx
       in if sxx = 0 then Inl LinAlgError
          else if d = 0 then Inr (sy / (2 * sx), sy / (2 * n))
          else Inr ((n * sxy - sx * sy) / d, (sxx * sy - sx * sxy) / d))"

text \<open>\<open>np.polyval(p, zs)\<close> for a degree-one coefficient pair.\<close>

definition np_polyval1 :: "real \<times> real \<Rightarrow> real list \<Rightarrow> real list" where
  "np_polyval1 p zs = map (\<lambda>v. fst p * v + snd p) zs"

subsection \<open>The particle tuple and the beam object\<close>

text \<open>The bmadx \<open>Particle\<close> named tuple \<open>(x, px, y, py, z, pz, s, p0c, mc2)\<close>; its fields
  are written \<open>P_x\<close>, \<open>P_px\<close>, ...\<close>

record Particle =
  P_x :: "real list"
  P_px :: "real list"
  P_y :: "real list"
  P_py :: "real list"
  P_z :: "real list"
  P_pz :: "real list"
  P_s :: real
  P_p0c :: real
  P_mc2 :: real

text \<open>The attributes of a \<open>Beam\<close>. The private attributes \<open>_charge\<close>, \<open>_init_energy\<close>,
  ... are written \<open>u_charge\<close>, \<open>u_init_energy\<close>, ...; \<open>input_beam_config\<close> is the
  dictionary given to the constructor, as the list of its items.\<close>

record Beam =
  input_beam_config :: "(string \<times> pyval) list"
  style :: pyval
  required_inputs :: "string list"
  u_charge :: pyval
  u_init_energy :: real
  particle :: Particle
  u_init_gamma :: real
  position :: real
  step :: int
  u_sigma_x :: real
  u_sigma_z :: real
  u_slope :: "real \<times> real"
  u_mean_x :: real
  u_mean_z :: real

subsection \<open>Properties of the beam\<close>

definition mean_x :: "Beam \<Rightarrow> real" where
  "mean_x b = np_mean (P_x (particle b))"

definition mean_y :: "Beam \<Rightarrow> real" where
  "mean_y b = np_mean (P_y (particle b))"

definition sigma_x :: "Beam \<Rightarrow> real" where
  "sigma_x b = np_std (P_x (particle b))"

definition sigma_z :: "Beam \<Rightarrow> real" where
  "sigma_z b = np_std (P_z (particle b))"

definition mean_z :: "Beam \<Rightarrow> real" where
  "mean_z b = np_mean (P_z (particle b))"

definition init_energy :: "Beam \<Rightarrow> real" where
  "init_energy b = u_init_energy b"

definition init_gamma :: "Beam \<Rightarrow> real" where
  "init_gamma b = u_init_gamma b"

definition energy :: "Beam \<Rightarrow> real list" where
  "energy b = map (\<lambda>v. (v + 1) * P_p0c (particle b)) (P_pz (particle b))"

definition mean_energy :: "Beam \<Rightarrow> real" where
  "mean_energy b = np_mean (energy b)"

text \<open>\<open>gamma\<close> divides by the module constant \<open>MC2\<close> of \<open>physical_constants\<close>, which is
  not among the sources: it is the parameter \<open>MC2\<close>.\<close>

definition gamma :: "real \<Rightarrow> Beam \<Rightarrow> real list" where
  "gamma MC2 b = map (\<lambda>e. e / MC2) (energy b)"

definition sigma_energy :: "Beam \<Rightarrow> real" where
  "sigma_energy b = np_std (energy b)"

definition slope :: "Beam \<Rightarrow> error + (real \<times> real)" where
  "slope b = np_polyfit1 (P_z (particle b)) (P_x (particle b))"

definition x_transform :: "Beam \<Rightarrow> error + real list" where
  "x_transform b =
    (case slope b of
       Inl e \<Rightarrow> Inl e
     | Inr p \<Rightarrow>
         Inr (map2 (\<lambda>u v. u - v) (P_x (particle b)) (np_polyval1 p (P_z (particle b)))))"

definition sigma_x_transform :: "Beam \<Rightarrow> error + real" where
  "sigma_x_transform b =
    (case x_transform b of Inl e \<Rightarrow> Inl e | Inr xt \<Rightarrow> Inr (np_std xt))"

definition charge :: "Beam \<Rightarrow> pyval" where
  "charge b = u_charge b"

text \<open>The coordinate arrays of a particle tuple have one length, the number of
  particles.\<close>

definition n_particle :: "Particle \<Rightarrow> nat" where
  "n_particle p = length (P_x p)"

definition same_lengths :: "Particle \<Rightarrow> bool" where
  "same_lengths p \<longleftrightarrow>
     length (P_px p) = length (P_x p) \<and> length (P_y p) = length (P_x p) \<and>
     length (P_py p) = length (P_x p) \<and> length (P_z p) = length (P_x p) \<and>
     length (P_pz p) = length (P_x p)"

subsection \<open>Two-dimensional arrays and the wake conversion\<close>

text \<open>A two-dimensional numpy float array: its shape and its entries (read only inside
  the shape).\<close>

record ndarray2 =
  shape0 :: nat
  shape1 :: nat
  item :: "nat \<Rightarrow> nat \<Rightarrow> real"

text \<open>The expression \<open>step_size * field * 1e6 / self.init_energy\<close> of \<open>apply_wakes\<close>
  (once for \<open>dE_dct\<close>, once for \<open>x_kick\<close>): every entry is scaled, the shape is kept.\<close>

definition wake_over_energy :: "real \<Rightarrow> ndarray2 \<Rightarrow> real \<Rightarrow> ndarray2" where
  "wake_over_energy step_size field E =
     field\<lparr>item := (\<lambda>i j. step_size * item field i j * 1000000 / E)\<rparr>"

subsection \<open>scipy's RegularGridInterpolator in two dimensions\<close>

text \<open>
  \<open>RegularGridInterpolator((xrange, zrange), values, fill_value=0.0, bounds_error=False)\<close>
  with the default linear method. The constructor raises \<open>ValueError\<close> when an axis is
  not strictly ascending and when \<open>values.shape\<close> differs from the axis lengths
  (recent scipy releases also take a strictly descending axis, which is not modelled).
\<close>

fun strictly_ascending :: "real list \<Rightarrow> bool" where
  "strictly_ascending (a # b # rest) = (a < b \<and> strictly_ascending (b # rest))"
| "strictly_ascending _ = True"

record interpolator =
  grid_x :: "real list"
  grid_z :: "real list"
  grid_values :: ndarray2

definition RegularGridInterpolator ::
    "real list \<Rightarrow> real list \<Rightarrow> ndarray2 \<Rightarrow> error + interpolator" where
  "RegularGridInterpolator xrange zrange vals =
     (if \<not> strictly_ascending xrange \<or> \<not> strictly_ascending zrange then Inl ValueError
      else if shape0 vals \<noteq> length xrange \<or> shape1 vals \<noteq> length zrange
        then Inl ValueError
      else Inr \<lparr>grid_x = xrange, grid_z = zrange, grid_values = vals\<rparr>)"

text \<open>
  Evaluation at a point. A point is out of bounds when a coordinate is below the first
  or above the last grid value of its axis; it then gets the fill value \<open>0.0\<close>. Inside,
  \<open>find_interval\<close> is the index \<open>i\<close> of the cell \<open>grid[i] \<le> v < grid[i+1]\<close> (the last
  cell for the last grid value), the normalised distance is
  \<open>(v - grid[i]) / (grid[i+1] - grid[i])\<close> and the value is the sum over the four corners
  of the cell of the corner value times the product of the weights. An axis of a single
  point has index 0 for both corners and distance 0.
\<close>

fun find_interval :: "real list \<Rightarrow> real \<Rightarrow> nat" where
  "find_interval (g0 # g1 # g2 # gs) v =
     (if v < g1 then 0 else Suc (find_interval (g1 # g2 # gs) v))"
| "find_interval _ v = 0"

definition upper_index :: "real list \<Rightarrow> nat \<Rightarrow> nat" where
  "upper_index grid i = (if length grid = 1 then i else Suc i)"

definition norm_distance :: "real list \<Rightarrow> real \<Rightarrow> real" where
  "norm_distance grid v =
     (if length grid = 1 then 0
      else let i = find_interval grid v in (v - grid ! i) / (grid ! Suc i - grid ! i))"

definition out_of_bounds :: "interpolator \<Rightarrow> real \<times> real \<Rightarrow> bool" where
  "out_of_bounds f p \<longleftrightarrow>
     fst p < hd (grid_x f) \<or> last (grid_x f) < fst p \<or>
     snd p < hd (grid_z f) \<or> last (grid_z f) < snd p"

definition evaluate_linear :: "interpolator \<Rightarrow> real \<times> real \<Rightarrow> real" where
  "evaluate_linear f p =
     (let i = find_interval (grid_x f) (fst p);
          j = find_interval (grid_z f) (snd p);
          i1 = upper_index (grid_x f) i;
          j1 = upper_index (grid_z f) j;
          tx = norm_distance (grid_x f) (fst p);
          tz = norm_distance (grid_z f) (snd p);
          v = item (grid_values f)
      in v i j * ((1 - tx) * (1 - tz)) + v i j1 * ((1 - tx) * tz)
         + v i1 j * (tx * (1 - tz)) + v i1 j1 * (tx * tz))"

definition interp_point :: "interpolator \<Rightarrow> real \<times> real \<Rightarrow> real" where
  "interp_point f p = (if out_of_bounds f p then 0 else evaluate_linear f p)"

text \<open>
  The piecewise-linear interpolant in the words of the specification, for comparison
  with \<open>interp_point\<close>: on the cell \<open>[x\<^sub>i, x\<^sub>i\<^sub>+\<^sub>1] \<times> [z\<^sub>j, z\<^sub>j\<^sub>+\<^sub>1]\<close> of the axis product, the
  blend of the four corner values that is linear in each coordinate.
\<close>

definition bilinear_on_cell ::
    "real list \<Rightarrow> real list \<Rightarrow> (nat \<Rightarrow> nat \<Rightarrow> real) \<Rightarrow> nat \<Rightarrow> nat \<Rightarrow> real \<times> real \<Rightarrow> real" where
  "bilinear_on_cell xs zs v i j p =
     (let s = (fst p - xs ! i) / (xs ! Suc i - xs ! i);
          t = (snd p - zs ! j) / (zs ! Suc j - zs ! j)
      in v i j * ((1 - s) * (1 - t)) + v i (Suc j) * ((1 - s) * t)
         + v (Suc i) j * (s * (1 - t)) + v (Suc i) (Suc j) * (s * t))"

text \<open>The call \<open>interp(points)\<close> on an array of points; reading \<open>grid[0]\<close> of an empty
  axis raises \<open>IndexError\<close>.\<close>

definition interp_call :: "interpolator \<Rightarrow> (real \<times> real) list \<Rightarrow> error + real list" where
  "interp_call f pts =
     (if grid_x f = [] \<or> grid_z f = [] then Inl IndexError
      else Inr (map (interp_point f) pts))"

subsection \<open>Methods that change the beam\<close>

text \<open>\<open>update_status\<close> assigns the cached statistics in the order of the source; the
  \<open>slope\<close> property is the only one that can raise, after the two sigmas were
  assigned.\<close>

definition update_status :: "Beam \<Rightarrow> error option \<times> Beam" where
  "update_status b =
     (let b1 = b\<lparr>u_sigma_x := sigma_x b\<rparr>;
          b2 = b1\<lparr>u_sigma_z := sigma_z b1\<rparr>
      in case slope b2 of
           Inl e \<Rightarrow> (Some e, b2)
         | Inr p \<Rightarrow>
             (let b3 = b2\<lparr>u_slope := p\<rparr>;
                  b4 = b3\<lparr>u_mean_x := mean_x b3\<rparr>
              in (None, b4\<lparr>u_mean_z := mean_z b4\<rparr>)))"

text \<open>\<open>track\<close>: the bmadx function \<open>track_element\<close> is the parameter of the same
  name.\<close>

definition track ::
    "(Particle \<Rightarrow> 'el \<Rightarrow> Particle) \<Rightarrow> 'el \<Rightarrow> real \<Rightarrow> bool \<Rightarrow> Beam \<Rightarrow> error option \<times> Beam" where
  "track track_element element step_size update_step b =
     (let b1 = b\<lparr>particle := track_element (particle b) element\<rparr>;
          b2 = b1\<lparr>position := position b1 + step_size\<rparr>;
          b3 = (if update_step then b2\<lparr>step := step b2 + 1\<rparr> else b2)
      in update_status b3)"

text \<open>The interpolated kick of one wake array at the particles: lines 161 to 167 of
  the source for \<open>dE_dct\<close> and lines 175 to 177 for \<open>x_kick\<close>.\<close>

definition wake_kicks ::
    "ndarray2 \<Rightarrow> real list \<Rightarrow> real list \<Rightarrow> real \<Rightarrow> Beam \<Rightarrow> error + real list" where
  "wake_kicks field xrange zrange step_size b =
     (case RegularGridInterpolator xrange zrange
             (wake_over_energy step_size field (init_energy b)) of
        Inl e \<Rightarrow> Inl e
      | Inr interp \<Rightarrow>
          (case x_transform b of
             Inl e \<Rightarrow> Inl e
           | Inr xt \<Rightarrow> interp_call interp (zip xt (P_z (particle b)))))"

definition apply_wakes ::
    "ndarray2 \<Rightarrow> ndarray2 \<Rightarrow> real list \<Rightarrow> real list \<Rightarrow> real \<Rightarrow> bool \<Rightarrow> Beam
      \<Rightarrow> error option \<times> Beam" where
  "apply_wakes dE_dct x_kick xrange zrange step_size transverse_on b =
     (case wake_kicks dE_dct xrange zrange step_size b of
        Inl e \<Rightarrow> (Some e, b)
      | Inr dE_Es \<Rightarrow>
          (let pz_new = map2 (\<lambda>u v. u + v) (P_pz (particle b)) dE_Es in
           case (if transverse_on
                 then (case wake_kicks x_kick xrange zrange step_size b of
                         Inl e \<Rightarrow> Inl e
                       | Inr dxps \<Rightarrow> Inr (map2 (\<lambda>u v. u + v) (P_px (particle b)) dxps))
                 else Inr (P_px (particle b))) of
             Inl e \<Rightarrow> (Some e, b)
           | Inr px_new \<Rightarrow>
               update_status
                 (b\<lparr>particle :=
                      \<lparr>P_x = P_x (particle b), P_px = px_new,
                       P_y = P_y (particle b), P_py = P_py (particle b),
                       P_z = P_z (particle b), P_pz = pz_new,
                       P_s = P_s (particle b), P_p0c = P_p0c (particle b),
                       P_mc2 = P_mc2 (particle b)\<rparr>\<rparr>)))"

subsection \<open>Construction\<close>

text \<open>\<open>check_inputs\<close> returns the list \<open>required_inputs\<close> it stores in the object. The
  dictionary \<open>input_beam\<close> is the list of its items; \<open>map_of\<close> is the lookup.\<close>

definition check_inputs :: "(string \<times> pyval) list \<Rightarrow> error + string list" where
  "check_inputs input_beam =
     (case map_of input_beam ''style'' of
        None \<Rightarrow> Inl AssertionError
      | Some st \<Rightarrow>
          (case (if st = Str ''from_file''
                   then Inr [''style'', ''beamfile'', ''charge'', ''energy'']
                 else if st = Str ''distgen''
                   then Inr [''style'', ''distgen_input_file'']
                 else if st = Str ''ParticleGroup''
                   then Inr [''style'', ''particleGroup_h5'']
                 else Inl Exception) of
             Inl e \<Rightarrow> Inl e
           | Inr required \<Rightarrow>
               (let allowed_params = required @ [''verbose''] in
                if \<not> list_all (\<lambda>k. k \<in> set allowed_params) (map fst input_beam)
                  then Inl AssertionError
                else if \<not> list_all (\<lambda>r. r \<in> set (map fst input_beam)) required
                  then Inl AssertionError
                else Inr required)))"

text \<open>
  \<open>np.loadtxt\<close> on the rows of numbers of a text file (blank lines are skipped). Rows of
  different lengths raise \<open>ValueError\<close>. With the default \<open>ndmin=0\<close> axes of length one
  are squeezed: a file of one row, or of one column, gives a one-dimensional array, a
  single number a zero-dimensional one, and an empty file an empty one-dimensional
  array.
\<close>

datatype ndarray = Arr0 real | Arr1 "real list" | Arr2 "real list list"

definition np_loadtxt :: "real list list \<Rightarrow> error + ndarray" where
  "np_loadtxt file_rows =
     (let rows = filter (\<lambda>r. r \<noteq> []) file_rows in
      if rows = [] then Inr (Arr1 [])
      else if \<not> list_all (\<lambda>r. length r = length (hd rows)) rows then Inl ValueError
      else if length rows = 1 \<and> length (hd rows) = 1 then Inr (Arr0 (hd (hd rows)))
      else if length rows = 1 then Inr (Arr1 (hd rows))
      else if length (hd rows) = 1 then Inr (Arr1 (map hd rows))
      else Inr (Arr2 rows))"

text \<open>\<open>coords.shape[1]\<close>: the shape of an array of fewer than two dimensions has no
  second entry.\<close>

definition shape_1 :: "ndarray \<Rightarrow> error + nat" where
  "shape_1 a = (case a of Arr2 rows \<Rightarrow> Inr (length (hd rows)) | _ \<Rightarrow> Inl IndexError)"

text \<open>Row \<open>k\<close> of \<open>coords.T\<close>.\<close>

definition column :: "ndarray \<Rightarrow> nat \<Rightarrow> real list" where
  "column a k = (case a of Arr2 rows \<Rightarrow> map (\<lambda>r. r ! k) rows | _ \<Rightarrow> [])"

text \<open>
  What the constructor takes from outside the class: the constant \<open>MC2\<close>, the rows of
  the file a name stands for (\<open>None\<close> when it cannot be read), the particle groups that
  distgen's \<open>Generator\<close> and \<open>ParticleGroup\<close> produce with their \<open>charge\<close> and \<open>energy\<close>
  entries, and the conversion \<open>openpmd_to_bmadx_particles\<close>.
\<close>

record 'pg externals =
  const_MC2 :: real
  file_rows_of :: "pyval \<Rightarrow> real list list option"
  Generator_particles :: "pyval \<Rightarrow> error + 'pg"
  ParticleGroup :: "pyval \<Rightarrow> error + 'pg"
  pg_charge :: "'pg \<Rightarrow> real"
  pg_energy :: "'pg \<Rightarrow> real list"
  openpmd_to_bmadx_particles :: "'pg \<Rightarrow> real \<Rightarrow> real \<Rightarrow> real \<Rightarrow> Particle"

text \<open>The three branches of \<open>__init__\<close>, each giving \<open>_charge\<close>, \<open>_init_energy\<close> and
  \<open>particle\<close>. A missing dictionary key raises \<open>KeyError\<close>.\<close>

definition init_from_file ::
    "'pg externals \<Rightarrow> (string \<times> pyval) list \<Rightarrow> error + (pyval \<times> real \<times> Particle)" where
  "init_from_file ext input_beam =
     (case map_of input_beam ''beamfile'' of
        None \<Rightarrow> Inl KeyError
      | Some filename \<Rightarrow>
          (case file_rows_of ext filename of
             None \<Rightarrow> Inl OSError
           | Some file_rows \<Rightarrow>
               (case np_loadtxt file_rows of
                  Inl e \<Rightarrow> Inl e
                | Inr coords \<Rightarrow>
                    (case shape_1 coords of
                       Inl e \<Rightarrow> Inl e
                     | Inr k \<Rightarrow>
                         if k \<noteq> 6 then Inl AssertionError
                         else
                           (case map_of input_beam ''charge'' of
                              None \<Rightarrow> Inl KeyError
                            | Some q \<Rightarrow>
                                (case map_of input_beam ''energy'' of
                                   None \<Rightarrow> Inl KeyError
                                 | Some (Str v) \<Rightarrow> Inl TypeError
                                 | Some (Num E) \<Rightarrow>
                                     Inr (q, E,
                                       \<lparr>P_x = column coords 0, P_px = column coords 1,
                                        P_y = column coords 2, P_py = column coords 3,
                                        P_z = column coords 4, P_pz = column coords 5,
                                        P_s = 0, P_p0c = E,
                                        P_mc2 = const_MC2 ext\<rparr>)))))))"

definition init_from_pg ::
    "'pg externals \<Rightarrow> 'pg \<Rightarrow> error + (pyval \<times> real \<times> Particle)" where
  "init_from_pg ext pg =
     (let E = np_mean (pg_energy ext pg) in
      Inr (Num (pg_charge ext pg), E,
           openpmd_to_bmadx_particles ext pg E 0 (const_MC2 ext)))"

definition init_distgen ::
    "'pg externals \<Rightarrow> (string \<times> pyval) list \<Rightarrow> error + (pyval \<times> real \<times> Particle)" where
  "init_distgen ext input_beam =
     (case map_of input_beam ''distgen_input_file'' of
        None \<Rightarrow> Inl KeyError
      | Some filename \<Rightarrow>
          (case Generator_particles ext filename of
             Inl e \<Rightarrow> Inl e
           | Inr pg \<Rightarrow> init_from_pg ext pg))"

definition init_ParticleGroup ::
    "'pg externals \<Rightarrow> (string \<times> pyval) list \<Rightarrow> error + (pyval \<times> real \<times> Particle)" where
  "init_ParticleGroup ext input_beam =
     (case map_of input_beam ''ParticleGroup_h5'' of
        None \<Rightarrow> Inl KeyError
      | Some ParticleGroup_h5 \<Rightarrow>
          (case ParticleGroup ext ParticleGroup_h5 of
             Inl e \<Rightarrow> Inl e
           | Inr pg \<Rightarrow> init_from_pg ext pg))"

text \<open>\<open>Beam.__init__\<close>. The cached statistics do not exist before the final
  \<open>update_status\<close>; the record holds 0 for them until it assigns them.\<close>

definition Beam_init :: "'pg externals \<Rightarrow> (string \<times> pyval) list \<Rightarrow> error + Beam" where
  "Beam_init ext input_beam =
     (case check_inputs input_beam of
        Inl e \<Rightarrow> Inl e
      | Inr required \<Rightarrow>
          (case map_of input_beam ''style'' of
             None \<Rightarrow> Inl KeyError
           | Some st \<Rightarrow>
               (case (if st = Str ''from_file'' then init_from_file ext input_beam
                      else if st = Str ''distgen'' then init_distgen ext input_beam
                      else init_ParticleGroup ext input_beam) of
                  Inl e \<Rightarrow> Inl e
                | Inr (q, E, p) \<Rightarrow>
                    (case update_status
                            \<lparr>input_beam_config = input_beam, style = st,
                             required_inputs = required, u_charge = q,
                             u_init_energy = E, particle = p,
                             u_init_gamma = E / const_MC2 ext,
                             position = 0, step = 0,
                             u_sigma_x = 0, u_sigma_z = 0, u_slope = (0, 0),
                             u_mean_x = 0, u_mean_z = 0\<rparr> of
                       (Some e, b) \<Rightarrow> Inl e
                     | (None, b) \<Rightarrow> Inr b))))"

subsection \<open>The beams the class hands out\<close>

text \<open>
  A caller gets a beam from the constructor and keeps it through calls of \<open>track\<close> and
  \<open>apply_wakes\<close> that return. These are the states of a \<open>Beam\<close> object that exist
  between calls; the externals and \<open>track_element\<close> are parameters.
\<close>

inductive handed_out ::
    "'pg externals \<Rightarrow> (Particle \<Rightarrow> 'el \<Rightarrow> Particle) \<Rightarrow> Beam \<Rightarrow> bool"
    for ext :: "'pg externals" and track_element :: "Particle \<Rightarrow> 'el \<Rightarrow> Particle" where
  constructed:
    "Beam_init ext input_beam = Inr b \<Longrightarrow> handed_out ext track_element b"
| tracked:
    "handed_out ext track_element b \<Longrightarrow>
     track track_element element step_size update_step b = (None, b') \<Longrightarrow>
     handed_out ext track_element b'"
| kicked:
    "handed_out ext track_element b \<Longrightarrow>
     apply_wakes dE_dct x_kick xrange zrange step_size transverse_on b = (None, b') \<Longrightarrow>
     handed_out ext track_element b'"

subsection \<open>Concrete beams and grids\<close>

text \<open>Three particles on the line \<open>x = z\<close>, with reference energy \<open>1e6\<close> eV.\<close>

definition particle3 :: Particle where
  "particle3 =
     \<lparr>P_x = [-1, 0, 1], P_px = [0, 0, 0], P_y = [0, 0, 0], P_py = [0, 0, 0],
      P_z = [-1, 0, 1], P_pz = [0, 1 / 2, - 1 / 4],
      P_s = 0, P_p0c = 1000000, P_mc2 = 510999\<rparr>"

definition beam_of :: "Particle \<Rightarrow> Beam" where
  "beam_of p =
     \<lparr>input_beam_config = [], style = Str ''from_file'', required_inputs = [],
      u_charge = Num 1, u_init_energy = 1000000, particle = p,
      u_init_gamma = 1000000 / 510999, position = 0, step = 0,
      u_sigma_x = 0, u_sigma_z = 0, u_slope = (0, 0), u_mean_x = 0, u_mean_z = 0\<rparr>"

definition beam3 :: Beam where
  "beam3 = beam_of particle3"

text \<open>A single particle, and two particles at \<open>z = 0\<close>.\<close>

definition particle1 :: Particle where
  "particle1 =
     \<lparr>P_x = [2], P_px = [0], P_y = [0], P_py = [0], P_z = [1], P_pz = [0],
      P_s = 0, P_p0c = 1000000, P_mc2 = 510999\<rparr>"

definition particle_flat :: Particle where
  "particle_flat =
     \<lparr>P_x = [1, 2], P_px = [0, 0], P_y = [0, 0], P_py = [0, 0], P_z = [0, 0],
      P_pz = [0, 0], P_s = 0, P_p0c = 1000000, P_mc2 = 510999\<rparr>"

text \<open>Beams made by the constructor: from a coordinate file of the given rows, and
  from a distgen generator whose particles convert to the given tuple, with charge 1
  and energy \<open>1e6\<close> eV. \<open>file3_rows\<close> holds the three particles of \<open>particle3\<close>,
  \<open>bent_rows\<close> three particles that do not lie on a line.\<close>

definition externals_gen :: "Particle \<Rightarrow> unit externals" where
  "externals_gen p =
     \<lparr>const_MC2 = 510999, file_rows_of = (\<lambda>name. None),
      Generator_particles = (\<lambda>name. Inr ()), ParticleGroup = (\<lambda>name. Inr ()),
      pg_charge = (\<lambda>pg. 1), pg_energy = (\<lambda>pg. [1000000]),
      openpmd_to_bmadx_particles = (\<lambda>pg E t m. p)\<rparr>"

definition distgen_input :: "(string \<times> pyval) list" where
  "distgen_input =
     [(''style'', Str ''distgen''), (''distgen_input_file'', Str ''gen.yaml'')]"

definition file3_rows :: "real list list" where
  "file3_rows =
     [[-1, 0, 0, 0, -1, 0], [0, 0, 0, 0, 0, 1 / 2], [1, 0, 0, 0, 1, - 1 / 4]]"

definition bent_rows :: "real list list" where
  "bent_rows = [[0, 0, 0, 0, -1, 0], [0, 0, 0, 0, 0, 0], [3, 0, 0, 0, 1, 0]]"

text \<open>A wake grid on the axes \<open>[-2, 2]\<close> with the constant value \<open>c\<close>.\<close>

definition const_grid :: "nat \<Rightarrow> nat \<Rightarrow> real \<Rightarrow> ndarray2" where
  "const_grid n m c = \<lparr>shape0 = n, shape1 = m, item = (\<lambda>i j. c)\<rparr>"

definition axis2 :: "real list" where
  "axis2 = [-2, 2]"

text \<open>A narrower axis, which the outer two of the three particles lie outside of.\<close>

definition axis_half :: "real list" where
  "axis_half = [- 1 / 2, 1 / 2]"

text \<open>Externals in which every file name stands for the same rows of numbers and no
  particle group can be produced.\<close>

definition externals_with :: "real list list \<Rightarrow> unit externals" where
  "externals_with file_rows =
     \<lparr>const_MC2 = 510999, file_rows_of = (\<lambda>name. Some file_rows),
      Generator_particles = (\<lambda>name. Inl OSError), ParticleGroup = (\<lambda>name. Inl OSError),
      pg_charge = (\<lambda>pg. 0), pg_energy = (\<lambda>pg. []),
      openpmd_to_bmadx_particles = (\<lambda>pg E t m. particle3)\<rparr>"

definition from_file_input :: "(string \<times> pyval) list" where
  "from_file_input =
     [(''style'', Str ''from_file''), (''beamfile'', Str ''beam.dat''),
      (''charge'', Num 1), (''energy'', Num 1000000)]"

definition ParticleGroup_input :: "(string \<times> pyval) list" where
  "ParticleGroup_input =
     [(''style'', Str ''ParticleGroup''), (''particleGroup_h5'', Str ''beam.h5'')]"

text \<open>The beam the constructor returns for a coordinate file of the given rows, and
  for a generator of the given particles.\<close>

definition file_beam :: "real list list \<Rightarrow> Beam" where
  "file_beam file_rows = projr (Beam_init (externals_with file_rows) from_file_input)"

definition gen_beam :: "Particle \<Rightarrow> Beam" where
  "gen_beam p = projr (Beam_init (externals_gen p) distgen_input)"

text \<open>The sum of the squared residuals of the line \<open>a * z + c\<close> on the points
  \<open>(z, x)\<close> of a particle tuple: what a least-squares fit of \<open>x\<close> against \<open>z\<close>
  minimises.\<close>

definition squared_residuals :: "Particle \<Rightarrow> real \<Rightarrow> real \<Rightarrow> real" where
  "squared_residuals p a c =
     sum_list (map2 (\<lambda>u v. (u - (a * v + c)) * (u - (a * v + c))) (P_x p) (P_z p))"

section \<open>Facts about the statistics refresh and the concrete beam\<close>

lemma update_status_frame:
  "particle (snd (update_status b)) = particle b"
  "position (snd (update_status b)) = position b"
  "step (snd (update_status b)) = step b"
  by (simp_all add: update_status_def Let_def split: sum.split)

lemma slope_cong: "particle b1 = particle b2 \<Longrightarrow> slope b1 = slope b2"
  by (simp add: slope_def)

lemma update_status_ok:
  "fst (update_status b) = None \<longleftrightarrow> (\<exists>p. slope b = Inr p)"
  by (auto simp add: update_status_def Let_def slope_def split: sum.split)

lemma slope_update_status: "slope (snd (update_status b)) = slope b"
  by (rule slope_cong) (simp add: update_status_frame)

lemma update_status_cached:
  "fst (update_status b) = None \<Longrightarrow>
     u_sigma_x (snd (update_status b)) = sigma_x (snd (update_status b))
   \<and> u_sigma_z (snd (update_status b)) = sigma_z (snd (update_status b))
   \<and> slope (snd (update_status b)) = Inr (u_slope (snd (update_status b)))
   \<and> u_mean_x (snd (update_status b)) = mean_x (snd (update_status b))
   \<and> u_mean_z (snd (update_status b)) = mean_z (snd (update_status b))"
  by (auto simp add: update_status_def Let_def slope_def sigma_x_def sigma_z_def
        mean_x_def mean_z_def split: sum.splits)

lemma slope_beam3: "slope beam3 = Inr (1, 0)"
  by (simp add: slope_def np_polyfit1_def beam3_def beam_of_def particle3_def Let_def)

lemma x_transform_beam3: "x_transform beam3 = Inr [0, 0, 0]"
  by (simp add: x_transform_def slope_beam3 np_polyval1_def)
     (simp add: beam3_def beam_of_def particle3_def)

lemma interp_point_const2:
  "- 2 \<le> u \<Longrightarrow> u \<le> 2 \<Longrightarrow> - 2 \<le> v \<Longrightarrow> v \<le> 2 \<Longrightarrow>
   interp_point \<lparr>grid_x = axis2, grid_z = axis2, grid_values = const_grid 2 2 c\<rparr> (u, v) = c"
  by (simp add: interp_point_def out_of_bounds_def evaluate_linear_def norm_distance_def
        upper_index_def Let_def axis2_def const_grid_def algebra_simps)

lemma wake_kicks_beam3: "wake_kicks (const_grid 2 2 c) axis2 axis2 1 beam3 = Inr [c, c, c]"
proof -
  have E: "init_energy beam3 = 1000000" and z: "P_z (particle beam3) = [-1, 0, 1]"
    by (simp_all add: init_energy_def beam3_def beam_of_def particle3_def)
  have g: "wake_over_energy 1 (const_grid 2 2 c) 1000000 = const_grid 2 2 c"
    by (simp add: wake_over_energy_def const_grid_def)
  have r: "RegularGridInterpolator axis2 axis2 (const_grid 2 2 c)
           = Inr \<lparr>grid_x = axis2, grid_z = axis2, grid_values = const_grid 2 2 c\<rparr>"
    by (simp add: RegularGridInterpolator_def axis2_def const_grid_def)
  show ?thesis
    by (simp add: wake_kicks_def E g r x_transform_beam3 z interp_call_def
          interp_point_const2)
       (simp add: axis2_def)
qed

section \<open>Energy and gamma\<close>

text \<open>
  Claim C4. For a beam of at least one particle, the energy of particle \<open>i\<close> is
  \<open>(pz + 1) * p0c\<close> and its gamma is that energy divided by \<open>MC2\<close>; both arrays have
  one entry per particle. The map is affine in \<open>pz\<close>: at \<open>pz = 0\<close> the energy is \<open>p0c\<close>,
  not zero.
\<close>

theorem energy_gamma_per_particle:
  assumes "1 \<le> length (P_pz (particle b))" and "i < length (P_pz (particle b))"
  shows "length (energy b) = length (P_pz (particle b))
       \<and> length (gamma MC2 b) = length (P_pz (particle b))
       \<and> energy b ! i = (P_pz (particle b) ! i + 1) * P_p0c (particle b)
       \<and> gamma MC2 b ! i = energy b ! i / MC2
       \<and> (P_pz (particle b) ! i = 0 \<longrightarrow> energy b ! i = P_p0c (particle b))"
  using assms by (simp add: energy_def gamma_def)

theorem energy_gamma_per_particle_witness:
  "1 \<le> length (P_pz (particle beam3))
   \<and> energy beam3 ! 0 = 1000000 \<and> gamma 510999 beam3 ! 0 = 1000000 / 510999
   \<and> energy beam3 ! 1 = 1500000"
  using energy_gamma_per_particle [of beam3 0 510999]
        energy_gamma_per_particle [of beam3 1 510999]
  by (simp add: beam3_def beam_of_def particle3_def)

section \<open>Applying a wake\<close>

text \<open>
  Claim C5. Whatever \<open>apply_wakes\<close> does (return or raise), the coordinates \<open>x\<close>, \<open>y\<close>,
  \<open>z\<close>, the path coordinate \<open>s\<close> and the momentum \<open>py\<close> of the beam it leaves are those
  it was given, and so is \<open>px\<close> when the transverse kick is off.
\<close>

theorem apply_wakes_frame:
  assumes "apply_wakes dE_dct x_kick xrange zrange step_size transverse_on b = (r, b')"
  shows "P_x (particle b') = P_x (particle b) \<and> P_y (particle b') = P_y (particle b)
       \<and> P_z (particle b') = P_z (particle b) \<and> P_s (particle b') = P_s (particle b)
       \<and> P_py (particle b') = P_py (particle b)
       \<and> (\<not> transverse_on \<longrightarrow> P_px (particle b') = P_px (particle b))"
proof -
  have "b' = snd (apply_wakes dE_dct x_kick xrange zrange step_size transverse_on b)"
    using assms by simp
  then show ?thesis
    by (simp add: apply_wakes_def Let_def update_status_frame split: sum.split)
qed

theorem apply_wakes_frame_witness:
  "P_x (particle (snd (apply_wakes (const_grid 2 2 1) (const_grid 2 2 1) axis2 axis2 1 False beam3))) = [-1, 0, 1]
   \<and> P_z (particle (snd (apply_wakes (const_grid 2 2 1) (const_grid 2 2 1) axis2 axis2 1 False beam3))) = [-1, 0, 1]
   \<and> P_px (particle (snd (apply_wakes (const_grid 2 2 1) (const_grid 2 2 1) axis2 axis2 1 False beam3))) = [0, 0, 0]
   \<and> P_pz (particle (snd (apply_wakes (const_grid 2 2 1) (const_grid 2 2 1) axis2 axis2 1 False beam3))) = [1, 3 / 2, 3 / 4]"
proof -
  let ?r = "apply_wakes (const_grid 2 2 1) (const_grid 2 2 1) axis2 axis2 1 False beam3"
  have pz: "P_pz (particle (snd ?r)) = [1, 3 / 2, 3 / 4]"
    by (simp add: apply_wakes_def wake_kicks_beam3 update_status_frame Let_def)
       (simp add: beam3_def beam_of_def particle3_def)
  have "?r = (fst ?r, snd ?r)" by simp
  from apply_wakes_frame [OF this] pz show ?thesis
    by (simp add: beam3_def beam_of_def particle3_def)
qed

text \<open>
  Claim C2. When the shape of \<open>dE_dct\<close> is not \<open>(len(xrange), len(zrange))\<close>,
  \<open>apply_wakes\<close> raises the \<open>ValueError\<close> of the interpolator's constructor and the beam
  is exactly the one it was given: coordinates and cached statistics are untouched. With
  the transverse kick on, a mismatched \<open>x_kick\<close> also ends in an exception with the beam
  untouched.
\<close>

theorem apply_wakes_shape_mismatch:
  "((shape0 dE_dct, shape1 dE_dct) \<noteq> (length xrange, length zrange)
      \<longrightarrow> apply_wakes dE_dct x_kick xrange zrange step_size transverse_on b
            = (Some ValueError, b))
   \<and> (transverse_on \<and> (shape0 x_kick, shape1 x_kick) \<noteq> (length xrange, length zrange)
      \<longrightarrow> (\<exists>e. apply_wakes dE_dct x_kick xrange zrange step_size transverse_on b
            = (Some e, b)))"
  by (auto simp add: apply_wakes_def wake_kicks_def RegularGridInterpolator_def
        wake_over_energy_def Let_def split: sum.split)

theorem apply_wakes_shape_mismatch_witness:
  "apply_wakes (const_grid 5 6 1) (const_grid 5 7 1) [0, 1, 2, 3, 4] [0, 1, 2, 3, 4, 5, 6] 1
      False beam3 = (Some ValueError, beam3)
   \<and> fst (apply_wakes (const_grid 5 7 1) (const_grid 5 6 1) [0, 1, 2, 3, 4]
        [0, 1, 2, 3, 4, 5, 6] 1 True beam3) \<noteq> None
   \<and> snd (apply_wakes (const_grid 5 7 1) (const_grid 5 6 1) [0, 1, 2, 3, 4]
        [0, 1, 2, 3, 4, 5, 6] 1 True beam3) = beam3"
  using apply_wakes_shape_mismatch [of "const_grid 5 6 1" "[0, 1, 2, 3, 4]"
          "[0, 1, 2, 3, 4, 5, 6]" "const_grid 5 7 1" 1 False beam3]
        apply_wakes_shape_mismatch [of "const_grid 5 7 1" "[0, 1, 2, 3, 4]"
          "[0, 1, 2, 3, 4, 5, 6]" "const_grid 5 6 1" 1 True beam3]
  by (auto simp add: const_grid_def)

section \<open>Tracking\<close>

text \<open>
  Claim C9. A call of \<open>track\<close> with step length \<open>step_size\<close> adds exactly \<open>step_size\<close> to
  \<open>position\<close>; \<open>step\<close> grows by one exactly when \<open>update_step\<close> is true, and is unchanged
  otherwise, so a step done as a call with \<open>update_step\<close> false followed by a call with
  \<open>update_step\<close> true counts once. The call returns exactly when the slope of the
  transported particles can be fitted, and then the cached statistics are those of the
  transported particles.
\<close>

theorem track_advances:
  assumes "track track_element element step_size update_step b = (r, b')"
  shows "position b' = position b + step_size
       \<and> (step b' = step b + 1 \<longleftrightarrow> update_step)
       \<and> (\<not> update_step \<longrightarrow> step b' = step b)
       \<and> particle b' = track_element (particle b) element
       \<and> (r = None \<longleftrightarrow> (\<exists>p. slope b' = Inr p))
       \<and> (r = None \<longrightarrow> u_sigma_x b' = sigma_x b' \<and> u_sigma_z b' = sigma_z b'
              \<and> slope b' = Inr (u_slope b') \<and> u_mean_x b' = mean_x b'
              \<and> u_mean_z b' = mean_z b')
       \<and> step (snd (track track_element element2 step_size2 True
                 (snd (track track_element element step_size False b)))) = step b + 1
       \<and> position (snd (track track_element element2 step_size2 True
                 (snd (track track_element element step_size False b))))
           = position b + step_size + step_size2"
proof -
  let ?t = "track track_element element step_size update_step b"
  have b': "b' = snd ?t" and r: "r = fst ?t"
    using assms by simp_all
  have p: "particle b' = track_element (particle b) element"
    by (simp add: b' track_def Let_def update_status_frame)
  have "r = None \<longleftrightarrow> (\<exists>p. slope b' = Inr p)"
    by (simp add: b' r track_def Let_def update_status_ok slope_update_status)
  moreover have "r = None \<longrightarrow> u_sigma_x b' = sigma_x b' \<and> u_sigma_z b' = sigma_z b'
              \<and> slope b' = Inr (u_slope b') \<and> u_mean_x b' = mean_x b'
              \<and> u_mean_z b' = mean_z b'"
    using update_status_cached by (simp add: b' r track_def Let_def)
  moreover have "position b' = position b + step_size"
    by (simp add: b' track_def Let_def update_status_frame)
  moreover have "(step b' = step b + 1 \<longleftrightarrow> update_step) \<and> (\<not> update_step \<longrightarrow> step b' = step b)"
    by (simp add: b' track_def Let_def update_status_frame)
  moreover have "step (snd (track track_element element2 step_size2 True
                 (snd (track track_element element step_size False b)))) = step b + 1"
    by (simp add: track_def Let_def update_status_frame)
  moreover have "position (snd (track track_element element2 step_size2 True
                 (snd (track track_element element step_size False b))))
           = position b + step_size + step_size2"
    by (simp add: track_def Let_def update_status_frame)
  ultimately show ?thesis using p by blast
qed

theorem track_advances_witness:
  "position (snd (track (\<lambda>p e. p) () 2 True beam3)) = 2
   \<and> step (snd (track (\<lambda>p e. p) () 2 True beam3)) = 1
   \<and> fst (track (\<lambda>p e. p) () 2 True beam3) = None
   \<and> u_slope (snd (track (\<lambda>p e. p) () 2 True beam3)) = (1, 0)
   \<and> step (snd (track (\<lambda>p e. p) () 1 True (snd (track (\<lambda>p e. p) () 2 False beam3)))) = 1
   \<and> position (snd (track (\<lambda>p e. p) () 1 True (snd (track (\<lambda>p e. p) () 2 False beam3)))) = 3"
proof -
  let ?t = "track (\<lambda>p e. p) () 2 True beam3"
  have t: "?t = (fst ?t, snd ?t)" by simp
  have s: "slope (snd ?t) = Inr (1, 0)"
    by (simp add: track_def Let_def slope_update_status)
       (simp add: slope_def np_polyfit1_def beam3_def beam_of_def particle3_def Let_def)
  have z: "position beam3 = 0" "step beam3 = 0"
    by (simp_all add: beam3_def beam_of_def)
  from track_advances [OF t, of "()" 1] s z show ?thesis
    by simp
qed

section \<open>Construction\<close>

lemma check_inputs_ParticleGroup:
  assumes "map_of input_beam ''style'' = Some (Str ''ParticleGroup'')"
    and "set (map fst input_beam) \<subseteq> {''style'', ''particleGroup_h5'', ''verbose''}"
    and "{''style'', ''particleGroup_h5''} \<subseteq> set (map fst input_beam)"
  shows "check_inputs input_beam = Inr [''style'', ''particleGroup_h5'']"
  using assms by (auto simp add: check_inputs_def list_all_iff)

text \<open>
  Claim C10. An input dictionary of style \<open>ParticleGroup\<close> whose keys are \<open>style\<close> and
  \<open>particleGroup_h5\<close>, with or without \<open>verbose\<close>, passes \<open>check_inputs\<close>, and the
  constructor then raises \<open>KeyError\<close>: it reads the key \<open>ParticleGroup_h5\<close>, which such a
  dictionary cannot hold.
\<close>

theorem ParticleGroup_style_key_error:
  assumes "map_of input_beam ''style'' = Some (Str ''ParticleGroup'')"
    and "set (map fst input_beam) \<subseteq> {''style'', ''particleGroup_h5'', ''verbose''}"
    and "{''style'', ''particleGroup_h5''} \<subseteq> set (map fst input_beam)"
  shows "check_inputs input_beam = Inr [''style'', ''particleGroup_h5'']
       \<and> Beam_init ext input_beam = Inl KeyError"
proof -
  have c: "check_inputs input_beam = Inr [''style'', ''particleGroup_h5'']"
    using assms by (rule check_inputs_ParticleGroup)
  have "''ParticleGroup_h5'' \<notin> set (map fst input_beam)"
    using assms(2) by auto
  then have "map_of input_beam ''ParticleGroup_h5'' = None"
    by (simp add: map_of_eq_None_iff)
  then show ?thesis
    using c assms(1) by (simp add: Beam_init_def init_ParticleGroup_def)
qed

theorem ParticleGroup_style_key_error_witness:
  "check_inputs ParticleGroup_input = Inr [''style'', ''particleGroup_h5'']
   \<and> Beam_init (externals_with []) ParticleGroup_input = Inl KeyError"
  using ParticleGroup_style_key_error [of ParticleGroup_input "externals_with []"]
  by (simp add: ParticleGroup_input_def)

section \<open>The linear fit of x against z\<close>

subsection \<open>Sums over the points\<close>

lemma sum_residual:
  "length xs = length zs \<Longrightarrow>
   sum_list (map2 (\<lambda>u v. u - (a * v + c)) xs zs)
     = sum_list xs - a * sum_list zs - c * real (length zs)"
  by (induct xs zs rule: list_induct2) (simp_all add: algebra_simps)

lemma sum_residual_times:
  "length xs = length zs \<Longrightarrow>
   sum_list (map2 (\<lambda>u v. (u - (a * v + c)) * v) xs zs)
     = sum_list (map2 (\<lambda>u v. u * v) zs xs) - a * sum_list (map (\<lambda>v. v * v) zs)
       - c * sum_list zs"
  for a c :: real
  by (induct xs zs rule: list_induct2) (simp_all add: algebra_simps)

lemma squares_shift:
  "length xs = length zs \<Longrightarrow>
   sum_list (map2 (\<lambda>u v. (u - (a' * v + c')) * (u - (a' * v + c'))) xs zs)
     = sum_list (map2 (\<lambda>u v. (u - (a * v + c)) * (u - (a * v + c))) xs zs)
       - 2 * ((a' - a) * sum_list (map2 (\<lambda>u v. (u - (a * v + c)) * v) xs zs)
              + (c' - c) * sum_list (map2 (\<lambda>u v. u - (a * v + c)) xs zs))
       + sum_list (map (\<lambda>v. ((a' - a) * v + (c' - c)) * ((a' - a) * v + (c' - c))) zs)"
  for a c a' c' :: real
  by (induct xs zs rule: list_induct2) (simp_all add: algebra_simps)

lemma sum_squares_nonneg:
  "0 \<le> sum_list (map (\<lambda>v. (f v :: real) * f v) zs)"
  by (rule sum_list_nonneg) auto

lemma sum_dev_squares:
  "sum_list (map (\<lambda>v. (v - m) * (v - m)) zs)
     = sum_list (map (\<lambda>v. v * v) zs) - 2 * m * sum_list zs + real (length zs) * m * m"
  by (induct zs) (simp_all add: algebra_simps)

lemma all_equal_of_zero_discriminant:
  assumes "zs \<noteq> []"
    and "real (length zs) * sum_list (map (\<lambda>v. v * v) zs) - sum_list zs * sum_list zs = 0"
  shows "\<forall>v \<in> set zs. v = sum_list zs / real (length zs)"
proof -
  let ?n = "real (length zs)" and ?m = "sum_list zs / real (length zs)"
  have n: "?n \<noteq> 0" using assms(1) by simp
  have "?n * sum_list (map (\<lambda>v. (v - ?m) * (v - ?m)) zs)
          = ?n * sum_list (map (\<lambda>v. v * v) zs) - sum_list zs * sum_list zs"
    unfolding sum_dev_squares using n by (simp add: field_simps)
  then have "sum_list (map (\<lambda>v. (v - ?m) * (v - ?m)) zs) = 0"
    using assms(2) n by simp
  moreover have "\<forall>y \<in> set (map (\<lambda>v. (v - ?m) * (v - ?m)) zs). 0 \<le> y"
    by auto
  ultimately have "\<forall>y \<in> set (map (\<lambda>v. (v - ?m) * (v - ?m)) zs). y = 0"
    using sum_list_nonneg_eq_0_iff by blast
  then show ?thesis by auto
qed

lemma sum_times_constant:
  "length xs = length zs \<Longrightarrow> \<forall>v \<in> set zs. v = m \<Longrightarrow>
   sum_list (map2 (\<lambda>u v. f u v * v) xs zs) = m * sum_list (map2 f xs zs)"
  for m :: real
  by (induct xs zs rule: list_induct2) (simp_all add: algebra_simps)

lemma moment_of_residuals:
  "length xs = length zs \<Longrightarrow>
   sum_list (map2 (\<lambda>u v. u * v) zs (map2 (\<lambda>u v. u - (a * v + c)) xs zs))
     = sum_list (map2 (\<lambda>u v. (u - (a * v + c)) * v) xs zs)"
  for a c :: real
  by (induct xs zs rule: list_induct2) (simp_all add: algebra_simps)

subsection \<open>What \<open>np.polyfit\<close> returns\<close>

text \<open>When the fit returns, the residuals of the fitted line sum to zero and are
  orthogonal to the abscissae (the normal equations), also in the rank-deficient case;
  hence the line minimises the sum of squared residuals, and fitting the residuals
  again gives the zero line.\<close>

lemma polyfit_returns:
  assumes "np_polyfit1 zs xs = Inr (a, c)"
  shows "zs \<noteq> []" and "length xs = length zs"
    and "sum_list (map (\<lambda>v. v * v) zs) \<noteq> 0"
  using assms by (auto simp add: np_polyfit1_def Let_def split: if_splits)

lemma polyfit_residual_sum:
  assumes "np_polyfit1 zs xs = Inr (a, c)"
  shows "sum_list (map2 (\<lambda>u v. u - (a * v + c)) xs zs) = 0"
proof -
  define n where "n = real (length zs)"
  define sx where "sx = sum_list zs"
  define sxx where "sxx = sum_list (map (\<lambda>v. v * v) zs)"
  define sy where "sy = sum_list xs"
  define sxy where "sxy = sum_list (map2 (\<lambda>u v. u * v) zs xs)"
  define d where "d = n * sxx - sx * sx"
  note defs = n_def sx_def sxx_def sy_def sxy_def d_def
  have len: "length xs = length zs" and ne: "zs \<noteq> []" and sxx: "sxx \<noteq> 0"
    using polyfit_returns [OF assms] by (simp_all add: sxx_def)
  have n: "n \<noteq> 0" using ne by (simp add: n_def)
  have r: "sum_list (map2 (\<lambda>u v. u - (a * v + c)) xs zs) = sy - a * sx - c * n"
    using len by (simp add: sum_residual defs)
  show ?thesis
  proof (cases "d = 0")
    case True
    then have ac: "a = sy / (2 * sx)" "c = sy / (2 * n)"
      using assms sxx ne len unfolding np_polyfit1_def Let_def defs by simp_all
    from True have "sx * sx = n * sxx" by (simp add: d_def)
    with n sxx have sx: "sx \<noteq> 0" by auto
    have "sy - a * sx - c * n = 0"
      unfolding ac using sx n by (simp add: field_simps)
    then show ?thesis unfolding r .
  next
    case False
    then have ac: "a = (n * sxy - sx * sy) / d" "c = (sxx * sy - sx * sxy) / d"
      using assms sxx ne len unfolding np_polyfit1_def Let_def defs by simp_all
    have "(sy - a * sx - c * n) * d = 0"
      unfolding ac using False by (simp add: field_simps d_def)
    with False show ?thesis unfolding r by simp
  qed
qed

lemma polyfit_residual_moment:
  assumes "np_polyfit1 zs xs = Inr (a, c)"
  shows "sum_list (map2 (\<lambda>u v. (u - (a * v + c)) * v) xs zs) = 0"
proof -
  define n where "n = real (length zs)"
  define sx where "sx = sum_list zs"
  define sxx where "sxx = sum_list (map (\<lambda>v. v * v) zs)"
  define sy where "sy = sum_list xs"
  define sxy where "sxy = sum_list (map2 (\<lambda>u v. u * v) zs xs)"
  define d where "d = n * sxx - sx * sx"
  note defs = n_def sx_def sxx_def sy_def sxy_def d_def
  have len: "length xs = length zs" and ne: "zs \<noteq> []" and sxx: "sxx \<noteq> 0"
    using polyfit_returns [OF assms] by (simp_all add: sxx_def)
  show ?thesis
  proof (cases "d = 0")
    case True
    then have "\<forall>v \<in> set zs. v = sx / n"
      using all_equal_of_zero_discriminant [OF ne] by (simp add: defs)
    then have "sum_list (map2 (\<lambda>u v. (u - (a * v + c)) * v) xs zs)
        = sx / n * sum_list (map2 (\<lambda>u v. u - (a * v + c)) xs zs)"
      using sum_times_constant [OF len, of "sx / n" "\<lambda>u v. u - (a * v + c)"] by simp
    then show ?thesis by (simp add: polyfit_residual_sum [OF assms])
  next
    case False
    then have ac: "a = (n * sxy - sx * sy) / d" "c = (sxx * sy - sx * sxy) / d"
      using assms sxx ne len unfolding np_polyfit1_def Let_def defs by simp_all
    have r: "sum_list (map2 (\<lambda>u v. (u - (a * v + c)) * v) xs zs) = sxy - a * sxx - c * sx"
      using len by (simp add: sum_residual_times defs)
    have "(sxy - a * sxx - c * sx) * d = 0"
      unfolding ac using False by (simp add: field_simps d_def)
    with False show ?thesis unfolding r by simp
  qed
qed

lemma polyfit_least_squares:
  assumes "np_polyfit1 zs xs = Inr (a, c)"
  shows "sum_list (map2 (\<lambda>u v. (u - (a * v + c)) * (u - (a * v + c))) xs zs)
       \<le> sum_list (map2 (\<lambda>u v. (u - (a' * v + c')) * (u - (a' * v + c'))) xs zs)"
proof -
  have len: "length xs = length zs"
    using polyfit_returns [OF assms] by simp
  show ?thesis
    unfolding squares_shift [OF len, of a' c' a c]
      polyfit_residual_sum [OF assms] polyfit_residual_moment [OF assms]
    using sum_squares_nonneg [of "\<lambda>v. (a' - a) * v + (c' - c)" zs] by simp
qed

lemma polyfit_succeeds:
  assumes "length xs = length zs" and "\<exists>v \<in> set zs. v \<noteq> 0"
  shows "\<exists>p. np_polyfit1 zs xs = Inr p"
proof -
  have "zs \<noteq> []" using assms(2) by auto
  moreover have "sum_list (map (\<lambda>v. v * v) zs) \<noteq> 0"
  proof
    assume "sum_list (map (\<lambda>v. v * v) zs) = 0"
    moreover have "\<forall>y \<in> set (map (\<lambda>v. v * v) zs). 0 \<le> y" by auto
    ultimately have "\<forall>y \<in> set (map (\<lambda>v. v * v) zs). y = 0"
      using sum_list_nonneg_eq_0_iff by blast
    then show False using assms(2) by auto
  qed
  ultimately show ?thesis
    using assms(1) by (simp add: np_polyfit1_def Let_def)
qed

lemma polyfit_all_zero:
  assumes "length xs = length zs" and "zs \<noteq> []" and "\<forall>v \<in> set zs. v = 0"
  shows "np_polyfit1 zs xs = Inl LinAlgError"
proof -
  have "\<forall>y \<in> set (map (\<lambda>v. v * v) zs). y = 0" using assms(3) by auto
  then have "sum_list (map (\<lambda>v. v * v) zs) = 0"
    using sum_list_nonneg_eq_0_iff [of "map (\<lambda>v. v * v) zs"] by force
  then show ?thesis using assms(1,2) by (simp add: np_polyfit1_def Let_def)
qed

lemma polyfit_of_residuals:
  assumes "np_polyfit1 zs xs = Inr (a, c)"
  shows "np_polyfit1 zs (map2 (\<lambda>u v. u - (a * v + c)) xs zs) = Inr (0, 0)"
proof -
  have len: "length xs = length zs" and ne: "zs \<noteq> []"
    and sxx: "sum_list (map (\<lambda>v. v * v) zs) \<noteq> 0"
    using polyfit_returns [OF assms] by simp_all
  have m: "sum_list (map2 (\<lambda>u v. u * v) zs (map2 (\<lambda>u v. u - (a * v + c)) xs zs)) = 0"
    using moment_of_residuals [OF len] polyfit_residual_moment [OF assms] by simp
  show ?thesis
    unfolding np_polyfit1_def Let_def m polyfit_residual_sum [OF assms]
    using len ne sxx by simp
qed

lemma x_transform_eq:
  "x_transform b =
     (case slope b of Inl e \<Rightarrow> Inl e
      | Inr p \<Rightarrow> Inr (map2 (\<lambda>u v. u - (fst p * v + snd p)) (P_x (particle b))
                      (P_z (particle b))))"
  by (simp add: x_transform_def np_polyval1_def zip_map2 split_def split: sum.split)

lemma x_transform_length:
  assumes "length (P_x (particle b)) = length (P_z (particle b))"
    and "x_transform b = Inr xt"
  shows "length xt = length (P_z (particle b))"
  using assms by (auto simp add: x_transform_eq split: sum.splits)

lemma x_transform_returns_iff:
  assumes "length (P_x (particle b)) = length (P_z (particle b))"
  shows "(\<exists>xt. x_transform b = Inr xt) \<longleftrightarrow> (\<exists>v \<in> set (P_z (particle b)). v \<noteq> 0)"
proof
  assume "\<exists>xt. x_transform b = Inr xt"
  then obtain p where p: "np_polyfit1 (P_z (particle b)) (P_x (particle b)) = Inr (fst p, snd p)"
    by (auto simp add: x_transform_eq slope_def split: sum.splits)
  have "sum_list (map (\<lambda>v. v * v) (P_z (particle b))) \<noteq> 0"
    using polyfit_returns [OF p] by simp
  then have "\<not> (\<forall>v \<in> set (P_z (particle b)). v = 0)"
    using polyfit_all_zero [of "P_x (particle b)" "P_z (particle b)"] p assms
      polyfit_returns(1) [OF p] by auto
  then show "\<exists>v \<in> set (P_z (particle b)). v \<noteq> 0"
    by blast
next
  assume "\<exists>v \<in> set (P_z (particle b)). v \<noteq> 0"
  then obtain p where "slope b = Inr p"
    unfolding slope_def using polyfit_succeeds [OF assms] by blast
  then show "\<exists>xt. x_transform b = Inr xt"
    by (simp add: x_transform_eq)
qed

lemma polyfit_unique:
  assumes "np_polyfit1 zs xs = Inr (a, c)"
    and "u \<in> set zs" and "v \<in> set zs" and "u \<noteq> v"
    and "sum_list (map2 (\<lambda>u v. (u - (a' * v + c')) * (u - (a' * v + c'))) xs zs)
       \<le> sum_list (map2 (\<lambda>u v. (u - (a * v + c)) * (u - (a * v + c))) xs zs)"
  shows "a' = a \<and> c' = c"
proof -
  let ?q = "map (\<lambda>v. ((a' - a) * v + (c' - c)) * ((a' - a) * v + (c' - c))) zs"
  have len: "length xs = length zs"
    using polyfit_returns [OF assms(1)] by simp
  have "sum_list ?q \<le> 0"
    using assms(5)
    unfolding squares_shift [OF len, of a' c' a c]
      polyfit_residual_sum [OF assms(1)] polyfit_residual_moment [OF assms(1)]
    by simp
  moreover have "0 \<le> sum_list ?q"
    by (rule sum_squares_nonneg)
  ultimately have "sum_list ?q = 0" by simp
  moreover have "\<forall>y \<in> set ?q. 0 \<le> y" by auto
  ultimately have "\<forall>y \<in> set ?q. y = 0"
    using sum_list_nonneg_eq_0_iff by blast
  then have z: "\<forall>w \<in> set zs. (a' - a) * w + (c' - c) = 0"
    by auto
  from z assms(2) have 1: "(a' - a) * u + (c' - c) = 0" by blast
  from z assms(3) have 2: "(a' - a) * v + (c' - c) = 0" by blast
  from 1 2 have "(a' - a) * (u - v) = 0"
    by (simp add: algebra_simps)
  with assms(4) have "a' = a" by simp
  with 1 show ?thesis by simp
qed

subsection \<open>The slope property\<close>

text \<open>
  What \<open>np.polyfit\<close> makes of the slope, for coordinate arrays of one length. With no
  particle it raises \<open>TypeError\<close>. With at least one particle it raises only when every
  \<open>z\<close> is zero (\<open>LinAlgError\<close>); otherwise it returns coefficients \<open>(a, c)\<close> that minimise
  the sum of squared residuals of \<open>x\<close> against \<open>a * z + c\<close>, and the only ones when two
  particles differ in \<open>z\<close>.
\<close>

lemma slope_fit_cases:
  assumes "length (P_x (particle b)) = length (P_z (particle b))"
  shows "(P_z (particle b) = [] \<longrightarrow> slope b = Inl TypeError)
       \<and> (P_z (particle b) \<noteq> [] \<and> (\<forall>v \<in> set (P_z (particle b)). v = 0)
            \<longrightarrow> slope b = Inl LinAlgError)
       \<and> ((\<exists>v \<in> set (P_z (particle b)). v \<noteq> 0)
            \<longrightarrow> (\<exists>a c. slope b = Inr (a, c)
                  \<and> (\<forall>a' c'. squared_residuals (particle b) a c
                              \<le> squared_residuals (particle b) a' c')))
       \<and> ((\<exists>u \<in> set (P_z (particle b)). \<exists>v \<in> set (P_z (particle b)). u \<noteq> v)
            \<longrightarrow> (\<forall>a c a' c'. slope b = Inr (a, c)
                    \<and> squared_residuals (particle b) a' c'
                        \<le> squared_residuals (particle b) a c
                  \<longrightarrow> a' = a \<and> c' = c))"
proof -
  have empty: "P_z (particle b) = [] \<longrightarrow> slope b = Inl TypeError"
    by (simp add: slope_def np_polyfit1_def)
  have flat: "P_z (particle b) \<noteq> [] \<and> (\<forall>v \<in> set (P_z (particle b)). v = 0)
            \<longrightarrow> slope b = Inl LinAlgError"
    unfolding slope_def using assms by (simp add: polyfit_all_zero)
  have fit: "\<exists>a c. slope b = Inr (a, c)
                  \<and> (\<forall>a' c'. squared_residuals (particle b) a c
                              \<le> squared_residuals (particle b) a' c')"
    if "\<exists>v \<in> set (P_z (particle b)). v \<noteq> 0"
  proof -
    from that obtain p where s: "slope b = Inr p"
      unfolding slope_def using polyfit_succeeds [OF assms] by blast
    then have p: "np_polyfit1 (P_z (particle b)) (P_x (particle b)) = Inr (fst p, snd p)"
      by (simp add: slope_def)
    have "\<forall>a' c'. squared_residuals (particle b) (fst p) (snd p)
                  \<le> squared_residuals (particle b) a' c'"
      unfolding squared_residuals_def using polyfit_least_squares [OF p] by blast
    moreover have "slope b = Inr (fst p, snd p)"
      using s by simp
    ultimately show ?thesis by blast
  qed
  have only: "a' = a \<and> c' = c"
    if d: "\<exists>u \<in> set (P_z (particle b)). \<exists>v \<in> set (P_z (particle b)). u \<noteq> v"
      and h: "slope b = Inr (a, c)
            \<and> squared_residuals (particle b) a' c' \<le> squared_residuals (particle b) a c"
    for a c a' c'
  proof -
    from d obtain u v where uv: "u \<in> set (P_z (particle b))" "v \<in> set (P_z (particle b))"
      "u \<noteq> v" by blast
    from h have p: "np_polyfit1 (P_z (particle b)) (P_x (particle b)) = Inr (a, c)"
      by (simp add: slope_def)
    from h have "sum_list (map2 (\<lambda>u v. (u - (a' * v + c')) * (u - (a' * v + c')))
                   (P_x (particle b)) (P_z (particle b)))
             \<le> sum_list (map2 (\<lambda>u v. (u - (a * v + c)) * (u - (a * v + c)))
                   (P_x (particle b)) (P_z (particle b)))"
      by (simp add: squared_residuals_def)
    then show ?thesis
      by (rule polyfit_unique [OF p uv])
  qed
  from empty flat fit only show ?thesis
    by (intro conjI impI allI) blast+
qed

subsection \<open>The de-chirped coordinate\<close>

text \<open>
  For coordinate arrays of one length \<open>x_transform\<close> returns exactly when some \<open>z\<close> is not
  zero. When it returns, its value is \<open>x\<close> minus the fitted line at each particle's \<open>z\<close>,
  and the line fitted to the de-chirped \<open>x\<close> against \<open>z\<close> is the zero line.
\<close>

lemma x_transform_refit:
  assumes "length (P_x (particle b)) = length (P_z (particle b))"
  shows "((\<exists>xt. x_transform b = Inr xt) \<longleftrightarrow> (\<exists>v \<in> set (P_z (particle b)). v \<noteq> 0))
       \<and> (\<forall>xt. x_transform b = Inr xt \<longrightarrow>
            (\<exists>a c. slope b = Inr (a, c)
               \<and> length xt = length (P_x (particle b))
               \<and> (\<forall>i < length xt.
                     xt ! i = P_x (particle b) ! i - (a * P_z (particle b) ! i + c))
               \<and> slope (b\<lparr>particle := (particle b)\<lparr>P_x := xt\<rparr>\<rparr>) = Inr (0, 0)))"
proof (intro conjI allI impI)
  show "(\<exists>xt. x_transform b = Inr xt) \<longleftrightarrow> (\<exists>v \<in> set (P_z (particle b)). v \<noteq> 0)"
    by (rule x_transform_returns_iff [OF assms])
next
  fix xt assume xt: "x_transform b = Inr xt"
  then obtain a c where s: "slope b = Inr (a, c)"
    and e: "xt = map2 (\<lambda>u v. u - (a * v + c)) (P_x (particle b)) (P_z (particle b))"
    by (auto simp add: x_transform_eq split: sum.splits)
  have p: "np_polyfit1 (P_z (particle b)) (P_x (particle b)) = Inr (a, c)"
    using s by (simp add: slope_def)
  have l: "length xt = length (P_x (particle b))"
    using assms by (simp add: e)
  have n: "\<forall>i < length xt. xt ! i = P_x (particle b) ! i - (a * P_z (particle b) ! i + c)"
    using assms by (simp add: e)
  have r: "slope (b\<lparr>particle := (particle b)\<lparr>P_x := xt\<rparr>\<rparr>) = Inr (0, 0)"
    using polyfit_of_residuals [OF p] by (simp add: slope_def e)
  show "\<exists>a c. slope b = Inr (a, c) \<and> length xt = length (P_x (particle b))
          \<and> (\<forall>i < length xt. xt ! i = P_x (particle b) ! i - (a * P_z (particle b) ! i + c))
          \<and> slope (b\<lparr>particle := (particle b)\<lparr>P_x := xt\<rparr>\<rparr>) = Inr (0, 0)"
    using s l n r by blast
qed

text \<open>On a tuple of two particles at \<open>z = 0\<close> the fit, and with it \<open>x_transform\<close>,
  raises.\<close>

lemma x_transform_flat_raises:
  "2 \<le> n_particle particle_flat \<and> x_transform (beam_of particle_flat) = Inl LinAlgError"
  by (simp add: n_particle_def x_transform_def slope_def np_polyfit1_def beam_of_def
        particle_flat_def Let_def)

section \<open>The kick of a wake\<close>

subsection \<open>When \<open>apply_wakes\<close> returns, and what it assigns\<close>

lemma wake_kicks_Inr:
  assumes "wake_kicks field xrange zrange step_size b = Inr ks"
  shows "\<exists>xt. x_transform b = Inr xt
           \<and> ks = map (interp_point \<lparr>grid_x = xrange, grid_z = zrange,
                    grid_values = wake_over_energy step_size field (init_energy b)\<rparr>)
                  (zip xt (P_z (particle b)))"
  using assms
  by (auto simp add: wake_kicks_def RegularGridInterpolator_def interp_call_def
        split: sum.splits if_splits)

lemma wake_kicks_returns_iff:
  "(\<exists>ks. wake_kicks field xrange zrange step_size b = Inr ks) \<longleftrightarrow>
     xrange \<noteq> [] \<and> zrange \<noteq> [] \<and> strictly_ascending xrange \<and> strictly_ascending zrange
     \<and> shape0 field = length xrange \<and> shape1 field = length zrange
     \<and> (\<exists>xt. x_transform b = Inr xt)"
  by (auto simp add: wake_kicks_def RegularGridInterpolator_def interp_call_def
        wake_over_energy_def split: sum.splits if_splits)

lemma apply_wakes_returns_iff:
  "fst (apply_wakes dE_dct x_kick xrange zrange step_size transverse_on b) = None \<longleftrightarrow>
     (\<exists>ks. wake_kicks dE_dct xrange zrange step_size b = Inr ks)
     \<and> (transverse_on \<longrightarrow> (\<exists>ks. wake_kicks x_kick xrange zrange step_size b = Inr ks))"
proof -
  have s: "(\<exists>ks. wake_kicks dE_dct xrange zrange step_size b = Inr ks) \<Longrightarrow>
        \<exists>p. slope b = Inr p"
    by (auto simp add: wake_kicks_returns_iff x_transform_eq split: sum.splits)
  have u: "fst (update_status (b\<lparr>particle := q\<rparr>)) = None \<longleftrightarrow>
        (\<exists>p. np_polyfit1 (P_z q) (P_x q) = Inr p)" for q
    by (simp add: update_status_ok slope_def)
  show ?thesis
    using s
    by (auto simp add: apply_wakes_def Let_def u slope_def split: sum.splits)
qed

lemma apply_wakes_pz:
  assumes "wake_kicks dE_dct xrange zrange step_size b = Inr ks"
    and "fst (apply_wakes dE_dct x_kick xrange zrange step_size transverse_on b) = None"
  shows "P_pz (particle (snd (apply_wakes dE_dct x_kick xrange zrange step_size
            transverse_on b))) = map2 (\<lambda>u v. u + v) (P_pz (particle b)) ks"
  using assms
  by (auto simp add: apply_wakes_def Let_def update_status_frame split: sum.splits)

lemma apply_wakes_px:
  assumes "wake_kicks x_kick xrange zrange step_size b = Inr ks"
    and "fst (apply_wakes dE_dct x_kick xrange zrange step_size transverse_on b) = None"
  shows "P_px (particle (snd (apply_wakes dE_dct x_kick xrange zrange step_size
            transverse_on b))) =
         (if transverse_on then map2 (\<lambda>u v. u + v) (P_px (particle b)) ks
          else P_px (particle b))"
  using assms
  by (auto simp add: apply_wakes_def Let_def update_status_frame split: sum.splits)

lemma apply_wakes_px_off:
  "P_px (particle (snd (apply_wakes dE_dct x_kick xrange zrange step_size False b)))
     = P_px (particle b)"
  by (simp add: apply_wakes_def Let_def update_status_frame split: sum.split)

lemma beam3_facts:
  "same_lengths (particle beam3)" "u_init_energy beam3 = 1000000"
  "P_z (particle beam3) = [-1, 0, 1]" "P_pz (particle beam3) = [0, 1 / 2, - 1 / 4]"
  "P_px (particle beam3) = [0, 0, 0]" "n_particle (particle beam3) = 3"
  by (simp_all add: beam3_def beam_of_def particle3_def same_lengths_def n_particle_def)

lemma wake_kicks_returns_beam3:
  "\<exists>ks. wake_kicks (const_grid 2 2 c) axis_half axis_half 1 beam3 = Inr ks"
  by (simp add: wake_kicks_returns_iff axis_half_def const_grid_def x_transform_beam3)

subsection \<open>The interpolator is the piecewise-linear interpolant\<close>

text \<open>On strictly ascending axes \<open>find_interval\<close> finds a cell that holds the point, and
  whichever cell of the grid holds a point, the value computed by \<open>interp_point\<close> is the
  bilinear blend of that cell's corner values.\<close>

lemma strictly_ascending_sorted_wrt: "strictly_ascending g \<longleftrightarrow> sorted_wrt (<) g"
  by (induct g rule: strictly_ascending.induct) (auto intro: less_trans)

lemma strictly_ascending_nth:
  "strictly_ascending g \<Longrightarrow> a < b \<Longrightarrow> b < length g \<Longrightarrow> g ! a < g ! b"
  by (simp add: strictly_ascending_sorted_wrt sorted_wrt_nth_less)

lemma strictly_ascending_nth_le:
  "strictly_ascending g \<Longrightarrow> a \<le> b \<Longrightarrow> b < length g \<Longrightarrow> g ! a \<le> g ! b"
  using strictly_ascending_nth [of g a b] by (cases "a = b") auto

lemma find_interval_cell:
  "strictly_ascending g \<Longrightarrow> 2 \<le> length g \<Longrightarrow> hd g \<le> u \<Longrightarrow>
   Suc (find_interval g u) < length g \<and> g ! find_interval g u \<le> u
   \<and> (u < g ! Suc (find_interval g u) \<or> Suc (Suc (find_interval g u)) = length g)"
proof (induct g u rule: find_interval.induct)
  case (1 g0 g1 g2 gs v)
  show ?case
  proof (cases "v < g1")
    case True
    with 1(3,4) show ?thesis by simp
  next
    case False
    with 1 show ?thesis by simp
  qed
qed simp_all

lemma linear_on_cell:
  assumes asc: "strictly_ascending g" and j: "Suc j < length g"
    and lo: "g ! j \<le> u" and hi: "u \<le> g ! Suc j"
  shows "f (find_interval g u) * (1 - norm_distance g u)
           + f (upper_index g (find_interval g u)) * norm_distance g u
         = f j * (1 - (u - g ! j) / (g ! Suc j - g ! j))
           + f (Suc j) * ((u - g ! j) / (g ! Suc j - g ! j))"
proof -
  define k where "k = find_interval g u"
  have len: "2 \<le> length g" using j by simp
  have "g \<noteq> []" using j by auto
  then have "hd g = g ! 0" by (simp add: hd_conv_nth)
  also have "\<dots> \<le> g ! j" using asc j by (simp add: strictly_ascending_nth_le)
  finally have "hd g \<le> u" using lo by simp
  from find_interval_cell [OF asc len this]
  have k: "Suc k < length g" "g ! k \<le> u" "u < g ! Suc k \<or> Suc (Suc k) = length g"
    by (simp_all add: k_def)
  have nd: "norm_distance g u = (u - g ! k) / (g ! Suc k - g ! k)"
    and ui: "upper_index g k = Suc k"
    using len by (simp_all add: norm_distance_def upper_index_def k_def Let_def)
  consider "k = j" | "k < j" | "j < k" by linarith
  then have "f k * (1 - (u - g ! k) / (g ! Suc k - g ! k))
           + f (Suc k) * ((u - g ! k) / (g ! Suc k - g ! k))
         = f j * (1 - (u - g ! j) / (g ! Suc j - g ! j))
           + f (Suc j) * ((u - g ! j) / (g ! Suc j - g ! j))"
  proof cases
    case 1
    then show ?thesis by simp
  next
    case 2
    then have "g ! Suc k \<le> g ! j"
      using asc j by (simp add: strictly_ascending_nth_le)
    with lo have "\<not> u < g ! Suc k" by simp
    with k(3) have "Suc (Suc k) = length g" by simp
    with 2 j show ?thesis by simp
  next
    case 3
    have "g ! Suc j \<le> g ! k"
      using 3 asc k(1) by (simp add: strictly_ascending_nth_le)
    with hi k(2) have e: "u = g ! k" "g ! k = g ! Suc j" by simp_all
    have "k = Suc j"
    proof (rule ccontr)
      assume "k \<noteq> Suc j"
      with 3 have "Suc j < k" by simp
      then have "g ! Suc j < g ! k"
        using asc k(1) by (simp add: strictly_ascending_nth)
      with e show False by simp
    qed
    moreover have "g ! j < g ! Suc j"
      using asc j by (simp add: strictly_ascending_nth)
    ultimately show ?thesis
      using e by simp
  qed
  then show ?thesis
    unfolding k_def [symmetric] nd ui .
qed

lemma inside_of_cell:
  assumes "strictly_ascending g" and "Suc j < length g"
    and "g ! j \<le> u" and "u \<le> g ! Suc j"
  shows "hd g \<le> u \<and> u \<le> last g"
proof -
  have ne: "g \<noteq> []" using assms(2) by auto
  have "hd g = g ! 0" using ne by (simp add: hd_conv_nth)
  also have "\<dots> \<le> g ! j" using assms(1,2) by (simp add: strictly_ascending_nth_le)
  finally have "hd g \<le> u" using assms(3) by simp
  moreover have "g ! Suc j \<le> g ! (length g - 1)"
    using assms(1,2) by (simp add: strictly_ascending_nth_le)
  then have "u \<le> last g"
    using assms(4) ne by (simp add: last_conv_nth)
  ultimately show ?thesis by simp
qed

lemma interp_point_on_cell:
  assumes "strictly_ascending xs" and "strictly_ascending zs"
    and "Suc i < length xs" and "Suc j < length zs"
    and "xs ! i \<le> u" and "u \<le> xs ! Suc i" and "zs ! j \<le> w" and "w \<le> zs ! Suc j"
  shows "interp_point \<lparr>grid_x = xs, grid_z = zs, grid_values = g\<rparr> (u, w)
         = bilinear_on_cell xs zs (item g) i j (u, w)"
proof -
  let ?f = "\<lparr>grid_x = xs, grid_z = zs, grid_values = g\<rparr>"
  define k where "k = find_interval xs u"
  define l where "l = find_interval zs w"
  define tx where "tx = norm_distance xs u"
  define tz where "tz = norm_distance zs w"
  define s where "s = (u - xs ! i) / (xs ! Suc i - xs ! i)"
  define t where "t = (w - zs ! j) / (zs ! Suc j - zs ! j)"
  define A where "A r = item g r j * (1 - t) + item g r (Suc j) * t" for r
  have inb: "\<not> out_of_bounds ?f (u, w)"
    using inside_of_cell [OF assms(1,3,5,6)] inside_of_cell [OF assms(2,4,7,8)]
    by (simp add: out_of_bounds_def)
  have z: "item g r l * (1 - tz) + item g r (upper_index zs l) * tz = A r" for r
    unfolding l_def tz_def A_def t_def
    using linear_on_cell [OF assms(2,4,7,8), of "item g r"] .
  have x: "A k * (1 - tx) + A (upper_index xs k) * tx = A i * (1 - s) + A (Suc i) * s"
    unfolding k_def tx_def s_def
    using linear_on_cell [OF assms(1,3,5,6), of A] .
  have "evaluate_linear ?f (u, w)
        = (item g k l * (1 - tz) + item g k (upper_index zs l) * tz) * (1 - tx)
          + (item g (upper_index xs k) l * (1 - tz)
             + item g (upper_index xs k) (upper_index zs l) * tz) * tx"
    by (simp add: evaluate_linear_def Let_def k_def l_def tx_def tz_def algebra_simps)
  also have "\<dots> = A i * (1 - s) + A (Suc i) * s"
    unfolding z x ..
  also have "\<dots> = bilinear_on_cell xs zs (item g) i j (u, w)"
    unfolding bilinear_on_cell_def Let_def fst_conv snd_conv s_def [symmetric]
      t_def [symmetric] A_def
    by (simp add: algebra_simps)
  finally show ?thesis
    using inb by (simp add: interp_point_def)
qed

lemma interp_point_constant:
  assumes "\<forall>j k. item (grid_values f) j k = c"
  shows "interp_point f p = (if out_of_bounds f p then 0 else c)"
proof -
  have "c * ((1 - tx) * (1 - tz)) + c * ((1 - tx) * tz) + c * (tx * (1 - tz)) + c * (tx * tz)
        = c" for tx tz :: real
    by (simp add: algebra_simps)
  then show ?thesis
    using assms by (simp add: interp_point_def evaluate_linear_def Let_def)
qed

subsection \<open>The longitudinal kick\<close>

text \<open>
  Claim C1. When \<open>apply_wakes\<close> returns, the \<open>pz\<close> of every particle is its old \<open>pz\<close> plus
  the value of the interpolator built on \<open>(xrange, zrange)\<close> from the converted field
  \<open>step_size * dE_dct * 1e6 / init_energy\<close>, taken at the pair (de-chirped \<open>x\<close>, \<open>z\<close>) of
  that particle: the point is \<open>x_transform\<close>, not the raw \<open>x\<close>. The coordinate arrays have
  one length and the reference energy is not zero (division by zero is \<open>inf\<close> or \<open>nan\<close> in
  numpy and has no counterpart in the reals). That value is the piecewise-linear
  interpolant of the specification: for a particle in the cell
  \<open>[x\<^sub>j, x\<^sub>j\<^sub>+\<^sub>1] \<times> [z\<^sub>k, z\<^sub>k\<^sub>+\<^sub>1]\<close> it is the bilinear blend of the four converted corner
  values. In particular, for a field of constant
  value \<open>c\<close> every particle inside the grid has its \<open>pz\<close> increased by
  \<open>step_size * c * 1e6 / init_energy\<close>. The witness is the scenario of the
  specification: three particles at \<open>z = [-1, 0, 1]\<close>, \<open>x = [-1, 0, 1]\<close>, a constant field
  1 on a grid over \<open>[-2, 2]\<close>, step 1 and reference energy \<open>1e6\<close>; every \<open>pz\<close> grows by
  exactly 1.
\<close>

theorem apply_wakes_adds_interpolated:
  assumes "same_lengths (particle b)" and "u_init_energy b \<noteq> 0"
    and "apply_wakes dE_dct x_kick xrange zrange step_size transverse_on b = (None, b')"
  shows "\<exists>xt. x_transform b = Inr xt
       \<and> length (P_pz (particle b')) = length (P_pz (particle b))
       \<and> (\<forall>i < length (P_pz (particle b)).
             P_pz (particle b') ! i = P_pz (particle b) ! i
               + interp_point
                   \<lparr>grid_x = xrange, grid_z = zrange,
                    grid_values = dE_dct\<lparr>item :=
                      (\<lambda>j k. step_size * item dE_dct j k * 1000000 / u_init_energy b)\<rparr>\<rparr>
                   (xt ! i, P_z (particle b) ! i))
       \<and> (\<forall>c i. (\<forall>j k. item dE_dct j k = c) \<and> i < length (P_pz (particle b))
               \<and> hd xrange \<le> xt ! i \<and> xt ! i \<le> last xrange
               \<and> hd zrange \<le> P_z (particle b) ! i \<and> P_z (particle b) ! i \<le> last zrange
             \<longrightarrow> P_pz (particle b') ! i
                   = P_pz (particle b) ! i + step_size * c * 1000000 / u_init_energy b)
       \<and> (\<forall>i j k. i < length (P_pz (particle b))
               \<and> Suc j < length xrange \<and> Suc k < length zrange
               \<and> xrange ! j \<le> xt ! i \<and> xt ! i \<le> xrange ! Suc j
               \<and> zrange ! k \<le> P_z (particle b) ! i \<and> P_z (particle b) ! i \<le> zrange ! Suc k
             \<longrightarrow> P_pz (particle b') ! i
                   = P_pz (particle b) ! i
                     + bilinear_on_cell xrange zrange
                         (\<lambda>m n. step_size * item dE_dct m n * 1000000 / u_init_energy b)
                         j k (xt ! i, P_z (particle b) ! i))"
proof -
  let ?a = "apply_wakes dE_dct x_kick xrange zrange step_size transverse_on b"
  let ?f = "\<lparr>grid_x = xrange, grid_z = zrange,
             grid_values = dE_dct\<lparr>item :=
               (\<lambda>j k. step_size * item dE_dct j k * 1000000 / u_init_energy b)\<rparr>\<rparr>"
  have f: "fst ?a = None" and b': "b' = snd ?a"
    using assms(3) by simp_all
  from f obtain ks where ks: "wake_kicks dE_dct xrange zrange step_size b = Inr ks"
    unfolding apply_wakes_returns_iff by blast
  from wake_kicks_Inr [OF ks] obtain xt where xt: "x_transform b = Inr xt"
    and k: "ks = map (interp_point \<lparr>grid_x = xrange, grid_z = zrange,
                    grid_values = wake_over_energy step_size dE_dct (init_energy b)\<rparr>)
                  (zip xt (P_z (particle b)))"
    by blast
  have lz: "length (P_x (particle b)) = length (P_z (particle b))"
    and lp: "length (P_pz (particle b)) = length (P_z (particle b))"
    using assms(1) by (simp_all add: same_lengths_def)
  have lx: "length xt = length (P_z (particle b))"
    using x_transform_length [OF lz xt] .
  have pz: "P_pz (particle b') = map2 (\<lambda>u v. u + v) (P_pz (particle b)) ks"
    unfolding b' using apply_wakes_pz [OF ks f] .
  have l: "length (P_pz (particle b')) = length (P_pz (particle b))"
    by (simp add: pz k lx lp)
  have n: "\<forall>i < length (P_pz (particle b)).
             P_pz (particle b') ! i = P_pz (particle b) ! i
               + interp_point ?f (xt ! i, P_z (particle b) ! i)"
    by (simp add: pz k lx lp wake_over_energy_def init_energy_def)
  have "P_pz (particle b') ! i
          = P_pz (particle b) ! i + step_size * c * 1000000 / u_init_energy b"
    if h: "(\<forall>j k. item dE_dct j k = c) \<and> i < length (P_pz (particle b))
               \<and> hd xrange \<le> xt ! i \<and> xt ! i \<le> last xrange
               \<and> hd zrange \<le> P_z (particle b) ! i \<and> P_z (particle b) ! i \<le> last zrange"
    for c i
  proof -
    have "\<forall>j k. item (grid_values ?f) j k = step_size * c * 1000000 / u_init_energy b"
      using h by simp
    from interp_point_constant [OF this, of "(xt ! i, P_z (particle b) ! i)"] h
    have "interp_point ?f (xt ! i, P_z (particle b) ! i)
            = step_size * c * 1000000 / u_init_energy b"
      by (simp add: out_of_bounds_def)
    with n h show ?thesis by simp
  qed
  moreover have "P_pz (particle b') ! i
          = P_pz (particle b) ! i
            + bilinear_on_cell xrange zrange
                (\<lambda>m n. step_size * item dE_dct m n * 1000000 / u_init_energy b)
                j k (xt ! i, P_z (particle b) ! i)"
    if h: "i < length (P_pz (particle b))
               \<and> Suc j < length xrange \<and> Suc k < length zrange
               \<and> xrange ! j \<le> xt ! i \<and> xt ! i \<le> xrange ! Suc j
               \<and> zrange ! k \<le> P_z (particle b) ! i \<and> P_z (particle b) ! i \<le> zrange ! Suc k"
    for i j k
  proof -
    have asc: "strictly_ascending xrange" "strictly_ascending zrange"
      using ks wake_kicks_returns_iff [of dE_dct xrange zrange step_size b] by blast+
    have "interp_point ?f (xt ! i, P_z (particle b) ! i)
            = bilinear_on_cell xrange zrange
                (\<lambda>m n. step_size * item dE_dct m n * 1000000 / u_init_energy b)
                j k (xt ! i, P_z (particle b) ! i)"
      using interp_point_on_cell [OF asc, of j k "xt ! i" "P_z (particle b) ! i"
              "dE_dct\<lparr>item := (\<lambda>j k. step_size * item dE_dct j k * 1000000
                                    / u_init_energy b)\<rparr>"] h
      by simp
    with n h show ?thesis by simp
  qed
  ultimately show ?thesis using xt l n by blast
qed

theorem apply_wakes_adds_interpolated_witness:
  "fst (apply_wakes (const_grid 2 2 1) (const_grid 2 2 0) axis2 axis2 1 False beam3) = None
   \<and> x_transform beam3 = Inr [0, 0, 0]
   \<and> P_pz (particle (snd (apply_wakes (const_grid 2 2 1) (const_grid 2 2 0) axis2 axis2 1
          False beam3))) ! 0 = P_pz (particle beam3) ! 0 + 1
   \<and> P_pz (particle (snd (apply_wakes (const_grid 2 2 1) (const_grid 2 2 0) axis2 axis2 1
          False beam3))) ! 1 = P_pz (particle beam3) ! 1 + 1
   \<and> P_pz (particle (snd (apply_wakes (const_grid 2 2 1) (const_grid 2 2 0) axis2 axis2 1
          False beam3))) ! 2 = P_pz (particle beam3) ! 2 + 1"
proof -
  let ?a = "apply_wakes (const_grid 2 2 1) (const_grid 2 2 0) axis2 axis2 1 False beam3"
  have f: "fst ?a = None"
    by (simp add: apply_wakes_returns_iff wake_kicks_beam3)
  then have a: "?a = (None, snd ?a)"
    by (metis prod.collapse)
  have e: "u_init_energy beam3 \<noteq> 0"
    by (simp add: beam3_facts)
  have c: "\<forall>j k. item (const_grid 2 2 1) j k = 1"
    by (simp add: const_grid_def)
  from apply_wakes_adds_interpolated [OF beam3_facts(1) e a]
  obtain xt where xt: "x_transform beam3 = Inr xt"
    and k: "\<forall>c i. (\<forall>j k. item (const_grid 2 2 1) j k = c)
               \<and> i < length (P_pz (particle beam3))
               \<and> hd axis2 \<le> xt ! i \<and> xt ! i \<le> last axis2
               \<and> hd axis2 \<le> P_z (particle beam3) ! i \<and> P_z (particle beam3) ! i \<le> last axis2
             \<longrightarrow> P_pz (particle (snd ?a)) ! i
                   = P_pz (particle beam3) ! i + 1 * c * 1000000 / u_init_energy beam3"
    by blast
  have x: "xt = [0, 0, 0]"
    using xt by (simp add: x_transform_beam3)
  have "\<forall>i. i < 3 \<and> hd axis2 \<le> [0, 0, 0] ! i \<and> [0, 0, 0] ! i \<le> last axis2
             \<and> hd axis2 \<le> [-1, 0, 1] ! i \<and> [-1, 0, 1] ! i \<le> last axis2
          \<longrightarrow> P_pz (particle (snd ?a)) ! i = P_pz (particle beam3) ! i + 1"
    using k [rule_format, of 1] c unfolding x beam3_facts by simp
  from this [rule_format, of 0] this [rule_format, of 1] this [rule_format, of 2]
  have "P_pz (particle (snd ?a)) ! 0 = P_pz (particle beam3) ! 0 + 1"
    and "P_pz (particle (snd ?a)) ! 1 = P_pz (particle beam3) ! 1 + 1"
    and "P_pz (particle (snd ?a)) ! 2 = P_pz (particle beam3) ! 2 + 1"
    by (simp_all add: axis2_def)
  with f x_transform_beam3 show ?thesis by blast
qed

subsection \<open>Particles outside the grid\<close>

text \<open>
  Claim C3. For coordinate arrays of one length, \<open>apply_wakes\<close> returns exactly when the
  axes are non-empty and strictly ascending, the field shapes match the axes (for
  \<open>x_kick\<close> only when the transverse kick is on) and some \<open>z\<close> is not zero, so that the
  slope can be fitted: no condition on where the particles lie relative to the grid.
  When it returns, a particle whose de-chirped \<open>x\<close> or whose \<open>z\<close> is below the first or
  above the last value of its axis keeps its \<open>pz\<close> and its \<open>px\<close> exactly, whatever the
  field values and whether or not the transverse kick is on.
\<close>

theorem out_of_range_particles_unkicked:
  assumes "same_lengths (particle b)"
  shows "(fst (apply_wakes dE_dct x_kick xrange zrange step_size transverse_on b) = None
          \<longleftrightarrow> xrange \<noteq> [] \<and> zrange \<noteq> []
              \<and> strictly_ascending xrange \<and> strictly_ascending zrange
              \<and> shape0 dE_dct = length xrange \<and> shape1 dE_dct = length zrange
              \<and> (transverse_on \<longrightarrow>
                    shape0 x_kick = length xrange \<and> shape1 x_kick = length zrange)
              \<and> (\<exists>v \<in> set (P_z (particle b)). v \<noteq> 0))
       \<and> (\<forall>xt i.
             fst (apply_wakes dE_dct x_kick xrange zrange step_size transverse_on b) = None
             \<and> x_transform b = Inr xt \<and> i < n_particle (particle b)
             \<and> (xt ! i < hd xrange \<or> last xrange < xt ! i
                  \<or> P_z (particle b) ! i < hd zrange \<or> last zrange < P_z (particle b) ! i)
             \<longrightarrow>
               P_pz (particle (snd (apply_wakes dE_dct x_kick xrange zrange step_size
                       transverse_on b))) ! i = P_pz (particle b) ! i
             \<and> P_px (particle (snd (apply_wakes dE_dct x_kick xrange zrange step_size
                       transverse_on b))) ! i = P_px (particle b) ! i)"
proof (intro conjI allI impI)
  have lz: "length (P_x (particle b)) = length (P_z (particle b))"
    using assms by (simp add: same_lengths_def)
  show "fst (apply_wakes dE_dct x_kick xrange zrange step_size transverse_on b) = None
          \<longleftrightarrow> xrange \<noteq> [] \<and> zrange \<noteq> []
              \<and> strictly_ascending xrange \<and> strictly_ascending zrange
              \<and> shape0 dE_dct = length xrange \<and> shape1 dE_dct = length zrange
              \<and> (transverse_on \<longrightarrow>
                    shape0 x_kick = length xrange \<and> shape1 x_kick = length zrange)
              \<and> (\<exists>v \<in> set (P_z (particle b)). v \<noteq> 0)"
    unfolding apply_wakes_returns_iff wake_kicks_returns_iff x_transform_returns_iff [OF lz]
    by blast
next
  fix xt i
  let ?a = "apply_wakes dE_dct x_kick xrange zrange step_size transverse_on b"
  assume h: "fst ?a = None \<and> x_transform b = Inr xt \<and> i < n_particle (particle b)
             \<and> (xt ! i < hd xrange \<or> last xrange < xt ! i
                  \<or> P_z (particle b) ! i < hd zrange \<or> last zrange < P_z (particle b) ! i)"
  have lz: "length (P_x (particle b)) = length (P_z (particle b))"
    and lp: "length (P_pz (particle b)) = length (P_z (particle b))"
    and lq: "length (P_px (particle b)) = length (P_z (particle b))"
    using assms by (simp_all add: same_lengths_def)
  have lx: "length xt = length (P_z (particle b))"
    using x_transform_length [OF lz] h by blast
  have i: "i < length (P_z (particle b))"
    using h lz by (simp add: n_particle_def)
  have zero: "interp_point \<lparr>grid_x = xrange, grid_z = zrange, grid_values = g\<rparr>
                (xt ! i, P_z (particle b) ! i) = 0" for g
    using h by (simp add: interp_point_def out_of_bounds_def)
  from h obtain ks where ks: "wake_kicks dE_dct xrange zrange step_size b = Inr ks"
    unfolding apply_wakes_returns_iff by blast
  have k: "ks ! i = 0" and lk: "length ks = length (P_z (particle b))"
    using wake_kicks_Inr [OF ks] h lx i zero by auto
  have "P_pz (particle (snd ?a)) = map2 (\<lambda>u v. u + v) (P_pz (particle b)) ks"
    using apply_wakes_pz [OF ks] h by blast
  then show "P_pz (particle (snd ?a)) ! i = P_pz (particle b) ! i"
    using i lp lk k by simp
  show "P_px (particle (snd ?a)) ! i = P_px (particle b) ! i"
  proof (cases transverse_on)
    case False
    then show ?thesis
      by (simp add: apply_wakes_px_off)
  next
    case True
    with h obtain js where js: "wake_kicks x_kick xrange zrange step_size b = Inr js"
      unfolding apply_wakes_returns_iff by blast
    have j: "js ! i = 0" and lj: "length js = length (P_z (particle b))"
      using wake_kicks_Inr [OF js] h lx i zero by auto
    have "P_px (particle (snd ?a)) = map2 (\<lambda>u v. u + v) (P_px (particle b)) js"
      using apply_wakes_px [OF js] h True by simp
    then show ?thesis
      using i lq lj j by simp
  qed
qed

theorem out_of_range_particles_unkicked_witness:
  "fst (apply_wakes (const_grid 2 2 1) (const_grid 2 2 1) axis_half axis_half 1 True beam3)
     = None
   \<and> P_pz (particle (snd (apply_wakes (const_grid 2 2 1) (const_grid 2 2 1) axis_half
          axis_half 1 True beam3))) ! 0 = 0
   \<and> P_pz (particle (snd (apply_wakes (const_grid 2 2 1) (const_grid 2 2 1) axis_half
          axis_half 1 True beam3))) ! 2 = - 1 / 4
   \<and> P_px (particle (snd (apply_wakes (const_grid 2 2 1) (const_grid 2 2 1) axis_half
          axis_half 1 True beam3))) ! 2 = 0"
proof -
  let ?a = "apply_wakes (const_grid 2 2 1) (const_grid 2 2 1) axis_half axis_half 1 True
              beam3"
  have f: "fst ?a = None"
    by (simp add: apply_wakes_returns_iff wake_kicks_returns_beam3)
  have o: "[-1, 0, 1::real] ! 0 < hd axis_half" "last axis_half < [-1, 0, 1::real] ! 2"
    by (simp_all add: axis_half_def)
  from out_of_range_particles_unkicked [OF beam3_facts(1), of "const_grid 2 2 1"
      "const_grid 2 2 1" axis_half axis_half 1 True]
  have "\<forall>i. i < 3 \<and> ([0, 0, 0] ! i < hd axis_half \<or> last axis_half < [0, 0, 0] ! i
             \<or> [-1, 0, 1] ! i < hd axis_half \<or> last axis_half < [-1, 0, 1] ! i)
          \<longrightarrow> P_pz (particle (snd ?a)) ! i = [0, 1 / 2, - 1 / 4] ! i
              \<and> P_px (particle (snd ?a)) ! i = [0, 0, 0] ! i"
    using f x_transform_beam3 by (simp add: beam3_facts)
  from this [rule_format, of 0] this [rule_format, of 2] o f show ?thesis
    by simp
qed

section \<open>Construction from a coordinate file\<close>

lemma check_inputs_from_file:
  assumes "map_of input_beam ''style'' = Some (Str ''from_file'')"
  shows "check_inputs input_beam =
          (if set (map fst input_beam)
                \<subseteq> {''style'', ''beamfile'', ''charge'', ''energy'', ''verbose''}
              \<and> {''style'', ''beamfile'', ''charge'', ''energy''} \<subseteq> set (map fst input_beam)
           then Inr [''style'', ''beamfile'', ''charge'', ''energy'']
           else Inl AssertionError)"
  using assms by (auto simp add: check_inputs_def list_all_iff)

lemma np_loadtxt_Arr2:
  assumes "np_loadtxt file_rows = Inr (Arr2 rows)"
  shows "rows = filter (\<lambda>r. r \<noteq> []) file_rows \<and> rows \<noteq> []
       \<and> (\<forall>r \<in> set rows. length r = length (hd rows))"
  using assms by (auto simp add: np_loadtxt_def Let_def list_all_iff split: if_splits)

text \<open>
  What the constructor does with a malformed input of style \<open>from_file\<close>. A key outside
  the allowed ones, or a missing required key, raises the \<open>AssertionError\<close> of
  \<open>check_inputs\<close>. With the right keys and a readable file in which some non-blank row
  does not have six numbers, the constructor raises as well: the \<open>AssertionError\<close> of the
  six-column assertion when \<open>np.loadtxt\<close> gives a two-dimensional array, the \<open>ValueError\<close>
  of \<open>np.loadtxt\<close> for rows of different lengths, and an \<open>IndexError\<close> from
  \<open>coords.shape[1]\<close> when the array has fewer than two dimensions.
\<close>

theorem from_file_validation:
  assumes "map_of input_beam ''style'' = Some (Str ''from_file'')"
  shows "(\<not> set (map fst input_beam)
              \<subseteq> {''style'', ''beamfile'', ''charge'', ''energy'', ''verbose''}
          \<longrightarrow> Beam_init ext input_beam = Inl AssertionError)
       \<and> (\<not> {''style'', ''beamfile'', ''charge'', ''energy''} \<subseteq> set (map fst input_beam)
          \<longrightarrow> Beam_init ext input_beam = Inl AssertionError)
       \<and> (check_inputs input_beam = Inr [''style'', ''beamfile'', ''charge'', ''energy'']
          \<and> map_of input_beam ''beamfile'' = Some filename
          \<and> file_rows_of ext filename = Some file_rows
          \<and> (\<exists>r \<in> set file_rows. r \<noteq> [] \<and> length r \<noteq> 6)
          \<longrightarrow> Beam_init ext input_beam =
                (case np_loadtxt file_rows of
                   Inl e \<Rightarrow> Inl ValueError
                 | Inr (Arr2 rows) \<Rightarrow> Inl AssertionError
                 | Inr a \<Rightarrow> Inl IndexError))"
proof (intro conjI impI)
  assume "\<not> set (map fst input_beam)
              \<subseteq> {''style'', ''beamfile'', ''charge'', ''energy'', ''verbose''}"
  then have "check_inputs input_beam = Inl AssertionError"
    unfolding check_inputs_from_file [OF assms] by simp
  then show "Beam_init ext input_beam = Inl AssertionError"
    by (simp add: Beam_init_def)
next
  assume "\<not> {''style'', ''beamfile'', ''charge'', ''energy''} \<subseteq> set (map fst input_beam)"
  then have "check_inputs input_beam = Inl AssertionError"
    unfolding check_inputs_from_file [OF assms] by simp
  then show "Beam_init ext input_beam = Inl AssertionError"
    by (simp add: Beam_init_def)
next
  assume h: "check_inputs input_beam = Inr [''style'', ''beamfile'', ''charge'', ''energy'']
          \<and> map_of input_beam ''beamfile'' = Some filename
          \<and> file_rows_of ext filename = Some file_rows
          \<and> (\<exists>r \<in> set file_rows. r \<noteq> [] \<and> length r \<noteq> 6)"
  then obtain r where r: "r \<in> set file_rows" "r \<noteq> []" "length r \<noteq> 6"
    by blast
  show "Beam_init ext input_beam =
                (case np_loadtxt file_rows of
                   Inl e \<Rightarrow> Inl ValueError
                 | Inr (Arr2 rows) \<Rightarrow> Inl AssertionError
                 | Inr a \<Rightarrow> Inl IndexError)"
  proof (cases "np_loadtxt file_rows")
    case (Inl e)
    then have "e = ValueError"
      by (auto simp add: np_loadtxt_def Let_def split: if_splits)
    with Inl h assms show ?thesis
      by (simp add: Beam_init_def init_from_file_def)
  next
    case (Inr coords)
    show ?thesis
    proof (cases coords)
      case (Arr0 v)
      with Inr h assms show ?thesis
        by (simp add: Beam_init_def init_from_file_def shape_1_def)
    next
      case (Arr1 a)
      with Inr h assms show ?thesis
        by (simp add: Beam_init_def init_from_file_def shape_1_def)
    next
      case (Arr2 rows)
      from np_loadtxt_Arr2 [OF Inr [unfolded Arr2]] r
      have "r \<in> set rows" and "length r = length (hd rows)"
        by auto
      with r have "length (hd rows) \<noteq> 6" by simp
      with Inr Arr2 h assms show ?thesis
        by (simp add: Beam_init_def init_from_file_def shape_1_def)
    qed
  qed
qed

theorem from_file_validation_witness:
  "Beam_init (externals_with [[1, 2, 3, 4, 5], [1, 2, 3, 4, 5]]) from_file_input
     = Inl AssertionError
   \<and> Beam_init (externals_with []) ((''colour'', Num 1) # from_file_input)
     = Inl AssertionError
   \<and> Beam_init (externals_with []) (butlast from_file_input) = Inl AssertionError"
proof -
  have n: "np_loadtxt [[1, 2, 3, 4, 5], [1, 2, 3, 4, 5]]
           = Inr (Arr2 [[1, 2, 3, 4, 5], [1, 2, 3, 4, 5]])"
    by (simp add: np_loadtxt_def)
  have c: "check_inputs from_file_input = Inr [''style'', ''beamfile'', ''charge'', ''energy'']"
    by (simp add: check_inputs_def from_file_input_def)
  show ?thesis
    using from_file_validation [of from_file_input
            "externals_with [[1, 2, 3, 4, 5], [1, 2, 3, 4, 5]]" "Str ''beam.dat''"
            "[[1, 2, 3, 4, 5], [1, 2, 3, 4, 5]]"]
          from_file_validation [of "(''colour'', Num 1) # from_file_input" "externals_with []"]
          from_file_validation [of "butlast from_file_input" "externals_with []"]
          n c
    by (simp add: from_file_input_def externals_with_def)
qed

text \<open>
  Claim C7 at a file of a single row. \<open>np.loadtxt\<close> squeezes the one row into a
  one-dimensional array, so \<open>coords.shape[1]\<close> raises \<open>IndexError\<close> before the assertion on
  the number of columns is evaluated: with five columns the failure is not the
  assertion's, and with six columns a well-formed file is refused. Two rows of five
  columns fail with the assertion, as the claim says.
\<close>

theorem from_file_one_row_index_error:
  "Beam_init (externals_with [[1, 2, 3, 4, 5]]) from_file_input = Inl IndexError
   \<and> Beam_init (externals_with [[1, 2, 3, 4, 5, 6]]) from_file_input = Inl IndexError
   \<and> Beam_init (externals_with [[1, 2, 3, 4, 5], [6, 7, 8, 9, 10]]) from_file_input
       = Inl AssertionError"
  by (simp add: Beam_init_def check_inputs_def from_file_input_def init_from_file_def
        externals_with_def np_loadtxt_def shape_1_def Let_def)

section \<open>The fit on the beams of the class\<close>

subsection \<open>A beam that was handed out has a slope\<close>

text \<open>The constructor, \<open>track\<close> and \<open>apply_wakes\<close> all end in \<open>update_status\<close>, which
  returns only when the fit does; so on every beam the class hands out the slope
  returns, the arrays \<open>x\<close> and \<open>z\<close> have one length and some \<open>z\<close> is not zero.\<close>

lemma update_status_returned:
  assumes "update_status b = (None, b')"
  shows "\<exists>p. slope b' = Inr p"
proof -
  have "fst (update_status b) = None" and "b' = snd (update_status b)"
    using assms by simp_all
  then show ?thesis
    by (simp add: update_status_ok slope_update_status)
qed

lemma Beam_init_returned:
  assumes "Beam_init ext input_beam = Inr b"
  shows "\<exists>p. slope b = Inr p"
proof -
  from assms obtain b0 where "update_status b0 = (None, b)"
    by (auto simp add: Beam_init_def split: sum.splits option.splits if_splits prod.splits)
  then show ?thesis by (rule update_status_returned)
qed

lemma track_returned:
  assumes "track track_element element step_size update_step b = (None, b')"
  shows "\<exists>p. slope b' = Inr p"
proof -
  from assms obtain b0 where "update_status b0 = (None, b')"
    by (auto simp add: track_def Let_def)
  then show ?thesis by (rule update_status_returned)
qed

lemma apply_wakes_returned:
  assumes "apply_wakes dE_dct x_kick xrange zrange step_size transverse_on b = (None, b')"
  shows "\<exists>p. slope b' = Inr p"
proof -
  from assms obtain b0 where "update_status b0 = (None, b')"
    by (auto simp add: apply_wakes_def Let_def split: sum.splits if_splits)
  then show ?thesis by (rule update_status_returned)
qed

lemma handed_out_slope:
  assumes "handed_out ext track_element b"
  shows "\<exists>p. slope b = Inr p"
  using assms
proof (cases rule: handed_out.cases)
  case (constructed input_beam)
  then show ?thesis by (rule Beam_init_returned)
next
  case (tracked b0 element step_size update_step)
  from tracked(2) show ?thesis by (rule track_returned)
next
  case (kicked b0 dE_dct x_kick xrange zrange step_size transverse_on)
  from kicked(2) show ?thesis by (rule apply_wakes_returned)
qed

lemma slope_returned_lengths:
  assumes "slope b = Inr p"
  shows "length (P_x (particle b)) = length (P_z (particle b))"
    and "\<exists>v \<in> set (P_z (particle b)). v \<noteq> 0"
proof -
  have q: "np_polyfit1 (P_z (particle b)) (P_x (particle b)) = Inr (fst p, snd p)"
    using assms by (simp add: slope_def)
  show l: "length (P_x (particle b)) = length (P_z (particle b))"
    using polyfit_returns [OF q] by simp
  have "\<exists>xt. x_transform b = Inr xt"
    using assms by (simp add: x_transform_eq)
  then show "\<exists>v \<in> set (P_z (particle b)). v \<noteq> 0"
    using x_transform_returns_iff [OF l] by simp
qed

subsection \<open>Beams made by the constructor\<close>

lemma file_beam_made:
  assumes "length file_rows \<ge> 2" and "\<forall>r \<in> set file_rows. length r = 6"
    and "np_polyfit1 (map (\<lambda>r. r ! 4) file_rows) (map (\<lambda>r. r ! 0) file_rows) = Inr p"
  shows "Beam_init (externals_with file_rows) from_file_input = Inr (file_beam file_rows)"
    and "P_x (particle (file_beam file_rows)) = map (\<lambda>r. r ! 0) file_rows"
    and "P_z (particle (file_beam file_rows)) = map (\<lambda>r. r ! 4) file_rows"
proof -
  have ne: "filter (\<lambda>r. r \<noteq> []) file_rows = file_rows"
    using assms(2) by (auto simp add: filter_id_conv)
  have h: "length (hd file_rows) = 6"
    using assms(1,2) by (cases file_rows) auto
  have l: "np_loadtxt file_rows = Inr (Arr2 file_rows)"
    using assms(1,2) h by (auto simp add: np_loadtxt_def ne Let_def list_all_iff)
  define raw where "raw =
      \<lparr>input_beam_config = from_file_input, style = Str ''from_file'',
       required_inputs = [''style'', ''beamfile'', ''charge'', ''energy''],
       u_charge = Num 1, u_init_energy = 1000000,
       particle = \<lparr>P_x = column (Arr2 file_rows) 0, P_px = column (Arr2 file_rows) 1,
                   P_y = column (Arr2 file_rows) 2, P_py = column (Arr2 file_rows) 3,
                   P_z = column (Arr2 file_rows) 4, P_pz = column (Arr2 file_rows) 5,
                   P_s = 0, P_p0c = 1000000, P_mc2 = 510999\<rparr>,
       u_init_gamma = 1000000 / 510999, position = 0, step = 0,
       u_sigma_x = 0, u_sigma_z = 0, u_slope = (0, 0), u_mean_x = 0, u_mean_z = 0\<rparr>"
  have B: "Beam_init (externals_with file_rows) from_file_input =
        (case update_status raw of (None, b) \<Rightarrow> Inr b | (Some e, b) \<Rightarrow> Inl e)"
    by (simp add: Beam_init_def check_inputs_def from_file_input_def init_from_file_def
          externals_with_def l shape_1_def h raw_def)
  have "slope raw = Inr p"
    using assms(3) by (simp add: slope_def raw_def column_def)
  then have "fst (update_status raw) = None"
    by (simp add: update_status_ok)
  then have u: "update_status raw = (None, snd (update_status raw))"
    by (metis prod.collapse)
  have I: "Beam_init (externals_with file_rows) from_file_input = Inr (snd (update_status raw))"
    unfolding B by (subst u) simp
  then have f: "file_beam file_rows = snd (update_status raw)"
    by (simp add: file_beam_def)
  show "Beam_init (externals_with file_rows) from_file_input = Inr (file_beam file_rows)"
    using I f by simp
  show "P_x (particle (file_beam file_rows)) = map (\<lambda>r. r ! 0) file_rows"
    and "P_z (particle (file_beam file_rows)) = map (\<lambda>r. r ! 4) file_rows"
    by (simp_all add: f update_status_frame raw_def column_def)
qed

lemma gen_beam_made:
  assumes "np_polyfit1 (P_z p) (P_x p) = Inr q"
  shows "Beam_init (externals_gen p) distgen_input = Inr (gen_beam p)"
    and "particle (gen_beam p) = p"
proof -
  define raw where "raw =
      \<lparr>input_beam_config = distgen_input, style = Str ''distgen'',
       required_inputs = [''style'', ''distgen_input_file''],
       u_charge = Num 1, u_init_energy = np_mean [1000000],
       particle = p,
       u_init_gamma = np_mean [1000000] / 510999, position = 0, step = 0,
       u_sigma_x = 0, u_sigma_z = 0, u_slope = (0, 0), u_mean_x = 0, u_mean_z = 0\<rparr>"
  have B: "Beam_init (externals_gen p) distgen_input =
        (case update_status raw of (None, b) \<Rightarrow> Inr b | (Some e, b) \<Rightarrow> Inl e)"
    by (simp add: Beam_init_def check_inputs_def distgen_input_def init_distgen_def
          init_from_pg_def externals_gen_def raw_def Let_def)
  have "slope raw = Inr q"
    using assms by (simp add: slope_def raw_def)
  then have "fst (update_status raw) = None"
    by (simp add: update_status_ok)
  then have u: "update_status raw = (None, snd (update_status raw))"
    by (metis prod.collapse)
  have I: "Beam_init (externals_gen p) distgen_input = Inr (snd (update_status raw))"
    unfolding B by (subst u) simp
  then have f: "gen_beam p = snd (update_status raw)"
    by (simp add: gen_beam_def)
  show "Beam_init (externals_gen p) distgen_input = Inr (gen_beam p)"
    using I f by simp
  show "particle (gen_beam p) = p"
    by (simp add: f update_status_frame raw_def)
qed

lemma file3_beam_facts:
  "Beam_init (externals_with file3_rows) from_file_input = Inr (file_beam file3_rows)"
  "P_x (particle (file_beam file3_rows)) = [-1, 0, 1]"
  "P_z (particle (file_beam file3_rows)) = [-1, 0, 1]"
proof -
  have p: "np_polyfit1 (map (\<lambda>r. r ! 4) file3_rows) (map (\<lambda>r. r ! 0) file3_rows) = Inr (1, 0)"
    by (simp add: np_polyfit1_def file3_rows_def Let_def)
  have l: "length file3_rows \<ge> 2" "\<forall>r \<in> set file3_rows. length r = 6"
    by (simp_all add: file3_rows_def)
  show "Beam_init (externals_with file3_rows) from_file_input = Inr (file_beam file3_rows)"
    using file_beam_made(1) [OF l p] .
  show "P_x (particle (file_beam file3_rows)) = [-1, 0, 1]"
    using file_beam_made(2) [OF l p] by (simp add: file3_rows_def)
  show "P_z (particle (file_beam file3_rows)) = [-1, 0, 1]"
    using file_beam_made(3) [OF l p] by (simp add: file3_rows_def)
qed

lemma bent_beam_facts:
  "Beam_init (externals_with bent_rows) from_file_input = Inr (file_beam bent_rows)"
  "P_x (particle (file_beam bent_rows)) = [0, 0, 3]"
  "P_z (particle (file_beam bent_rows)) = [-1, 0, 1]"
proof -
  have p: "np_polyfit1 (map (\<lambda>r. r ! 4) bent_rows) (map (\<lambda>r. r ! 0) bent_rows)
           = Inr (3 / 2, 1)"
    by (simp add: np_polyfit1_def bent_rows_def Let_def)
  have l: "length bent_rows \<ge> 2" "\<forall>r \<in> set bent_rows. length r = 6"
    by (simp_all add: bent_rows_def)
  show "Beam_init (externals_with bent_rows) from_file_input = Inr (file_beam bent_rows)"
    using file_beam_made(1) [OF l p] .
  show "P_x (particle (file_beam bent_rows)) = [0, 0, 3]"
    using file_beam_made(2) [OF l p] by (simp add: bent_rows_def)
  show "P_z (particle (file_beam bent_rows)) = [-1, 0, 1]"
    using file_beam_made(3) [OF l p] by (simp add: bent_rows_def)
qed

lemma gen_beam1_facts:
  "Beam_init (externals_gen particle1) distgen_input = Inr (gen_beam particle1)"
  "particle (gen_beam particle1) = particle1"
proof -
  have p: "np_polyfit1 (P_z particle1) (P_x particle1) = Inr (1, 1)"
    by (simp add: np_polyfit1_def particle1_def Let_def)
  show "Beam_init (externals_gen particle1) distgen_input = Inr (gen_beam particle1)"
    using gen_beam_made(1) [OF p] .
  show "particle (gen_beam particle1) = particle1"
    using gen_beam_made(2) [OF p] .
qed

subsection \<open>The slope\<close>

text \<open>
  Claim C6, as the code has it. With no particle (an empty \<open>z\<close> array) the slope raises:
  numpy's \<open>TypeError\<close> for an empty vector. On a beam the class hands out, a single
  particle gives no error: the fit returns coefficients \<open>(a, c)\<close> of a line through the
  particle's point, \<open>a * z + c = x\<close>. With two or more particles it returns coefficients
  that minimise the sum of squared residuals of \<open>x\<close> against \<open>a * z + c\<close>: the
  degree-one least-squares fit.
\<close>

theorem slope_least_squares:
  "(P_z (particle b) = [] \<longrightarrow> slope b = Inl TypeError)
   \<and> (handed_out ext track_element b \<and> n_particle (particle b) = 1
        \<longrightarrow> (\<exists>a c. slope b = Inr (a, c)
              \<and> a * P_z (particle b) ! 0 + c = P_x (particle b) ! 0))
   \<and> (handed_out ext track_element b \<and> 2 \<le> n_particle (particle b)
        \<longrightarrow> (\<exists>a c. slope b = Inr (a, c)
              \<and> (\<forall>a' c'. squared_residuals (particle b) a c
                          \<le> squared_residuals (particle b) a' c')))"
proof -
  have empty: "P_z (particle b) = [] \<longrightarrow> slope b = Inl TypeError"
    by (simp add: slope_def np_polyfit1_def)
  have fit: "\<exists>a c. slope b = Inr (a, c)
                  \<and> (\<forall>a' c'. squared_residuals (particle b) a c
                              \<le> squared_residuals (particle b) a' c')
                  \<and> (n_particle (particle b) = 1
                        \<longrightarrow> a * P_z (particle b) ! 0 + c = P_x (particle b) ! 0)"
    if "handed_out ext track_element b"
  proof -
    from handed_out_slope [OF that] obtain p where s: "slope b = Inr p" by blast
    then have p: "np_polyfit1 (P_z (particle b)) (P_x (particle b)) = Inr (fst p, snd p)"
      by (simp add: slope_def)
    have len: "length (P_x (particle b)) = length (P_z (particle b))"
      using slope_returned_lengths(1) [OF s] .
    have m: "\<forall>a' c'. squared_residuals (particle b) (fst p) (snd p)
                  \<le> squared_residuals (particle b) a' c'"
      unfolding squared_residuals_def using polyfit_least_squares [OF p] by blast
    have one: "fst p * P_z (particle b) ! 0 + snd p = P_x (particle b) ! 0"
      if n: "n_particle (particle b) = 1"
    proof -
      from n len obtain x0 z0 where xz: "P_x (particle b) = [x0]" "P_z (particle b) = [z0]"
        by (auto simp add: n_particle_def length_Suc_conv)
      from polyfit_residual_sum [OF p] show ?thesis
        by (simp add: xz)
    qed
    have "slope b = Inr (fst p, snd p)" using s by simp
    with m one show ?thesis by blast
  qed
  from empty fit show ?thesis by blast
qed

theorem slope_least_squares_witness:
  "slope (beam_of (particle3\<lparr>P_x := [], P_z := []\<rparr>)) = Inl TypeError
   \<and> handed_out (externals_gen particle1) (\<lambda>p (e::unit). p) (gen_beam particle1)
   \<and> slope (gen_beam particle1) = Inr (1, 1)
   \<and> handed_out (externals_with file3_rows) (\<lambda>p (e::unit). p) (file_beam file3_rows)
   \<and> slope (file_beam file3_rows) = Inr (1, 0)
   \<and> squared_residuals (particle (file_beam file3_rows)) 1 0
       \<le> squared_residuals (particle (file_beam file3_rows)) 0 0"
proof -
  let ?t = "\<lambda>p (e::unit). p"
  have "P_z (particle (beam_of (particle3\<lparr>P_x := [], P_z := []\<rparr>))) = []"
    by (simp add: beam_of_def)
  with slope_least_squares [of "beam_of (particle3\<lparr>P_x := [], P_z := []\<rparr>)"]
  have e: "slope (beam_of (particle3\<lparr>P_x := [], P_z := []\<rparr>)) = Inl TypeError"
    by blast
  have h1: "handed_out (externals_gen particle1) ?t (gen_beam particle1)"
    using gen_beam1_facts(1) by (rule handed_out.constructed)
  have "slope (gen_beam particle1) = np_polyfit1 (P_z particle1) (P_x particle1)"
    by (simp add: slope_def gen_beam1_facts(2))
  then have s1: "slope (gen_beam particle1) = Inr (1, 1)"
    by (simp add: np_polyfit1_def particle1_def Let_def)
  have h3: "handed_out (externals_with file3_rows) ?t (file_beam file3_rows)"
    using file3_beam_facts(1) by (rule handed_out.constructed)
  have n3: "2 \<le> n_particle (particle (file_beam file3_rows))"
    by (simp add: n_particle_def file3_beam_facts)
  have s3: "slope (file_beam file3_rows) = Inr (1, 0)"
    by (simp add: slope_def file3_beam_facts np_polyfit1_def Let_def)
  from slope_least_squares [of "file_beam file3_rows" "externals_with file3_rows" ?t] h3 n3
  obtain a c where ac: "slope (file_beam file3_rows) = Inr (a, c)"
    and m: "\<forall>a' c'. squared_residuals (particle (file_beam file3_rows)) a c
                  \<le> squared_residuals (particle (file_beam file3_rows)) a' c'"
    by blast
  from ac s3 have "a = 1" "c = 0" by simp_all
  with m have r: "squared_residuals (particle (file_beam file3_rows)) 1 0
       \<le> squared_residuals (particle (file_beam file3_rows)) 0 0"
    by blast
  from e h1 s1 h3 s3 r show ?thesis by simp
qed

text \<open>Claim C6 as stated fails on the beam the constructor makes from a generator of
  one particle at \<open>z = 1\<close>, \<open>x = 2\<close>: the slope is returned, no exception is raised.\<close>

theorem slope_single_particle_counterexample:
  "Beam_init (externals_gen particle1) distgen_input = Inr (gen_beam particle1)
   \<and> n_particle (particle (gen_beam particle1)) < 2
   \<and> slope (gen_beam particle1) = Inr (1, 1)"
proof -
  have "slope (gen_beam particle1) = np_polyfit1 (P_z particle1) (P_x particle1)"
    by (simp add: slope_def gen_beam1_facts(2))
  then have "slope (gen_beam particle1) = Inr (1, 1)"
    by (simp add: np_polyfit1_def particle1_def Let_def)
  moreover have "n_particle (particle (gen_beam particle1)) < 2"
    unfolding gen_beam1_facts(2) by (simp add: n_particle_def particle1_def)
  ultimately show ?thesis
    using gen_beam1_facts(1) by simp
qed

subsection \<open>The de-chirped coordinate of a beam of the class\<close>

text \<open>
  Claim C8. On a beam the class hands out with at least two particles, \<open>x_transform\<close>
  returns; its value is \<open>x\<close> minus the fitted line \<open>a * z + c\<close> at each particle's \<open>z\<close>,
  where \<open>(a, c)\<close> is the slope, a least-squares fit of \<open>x\<close> against \<open>z\<close>; and the slope
  fitted to the de-chirped \<open>x\<close> against \<open>z\<close> is exactly zero (arithmetic is exact here).
\<close>

theorem x_transform_removes_slope:
  assumes "handed_out ext track_element b" and "2 \<le> n_particle (particle b)"
  shows "\<exists>xt a c. x_transform b = Inr xt \<and> slope b = Inr (a, c)
       \<and> (\<forall>a' c'. squared_residuals (particle b) a c
                   \<le> squared_residuals (particle b) a' c')
       \<and> length xt = n_particle (particle b)
       \<and> (\<forall>i < n_particle (particle b).
             xt ! i = P_x (particle b) ! i - (a * P_z (particle b) ! i + c))
       \<and> (\<exists>c'. slope (b\<lparr>particle := (particle b)\<lparr>P_x := xt\<rparr>\<rparr>) = Inr (0, c'))"
proof -
  from handed_out_slope [OF assms(1)] obtain p where s: "slope b = Inr p" by blast
  then have p: "np_polyfit1 (P_z (particle b)) (P_x (particle b)) = Inr (fst p, snd p)"
    by (simp add: slope_def)
  have len: "length (P_x (particle b)) = length (P_z (particle b))"
    using slope_returned_lengths(1) [OF s] .
  have m: "\<forall>a' c'. squared_residuals (particle b) (fst p) (snd p)
                \<le> squared_residuals (particle b) a' c'"
    unfolding squared_residuals_def using polyfit_least_squares [OF p] by blast
  obtain xt where xt: "x_transform b = Inr xt"
    using s by (simp add: x_transform_eq)
  from x_transform_refit [OF len] xt s
  have l: "length xt = length (P_x (particle b))"
    and n: "\<forall>i < length xt.
              xt ! i = P_x (particle b) ! i - (fst p * P_z (particle b) ! i + snd p)"
    and r: "slope (b\<lparr>particle := (particle b)\<lparr>P_x := xt\<rparr>\<rparr>) = Inr (0, 0)"
    by auto
  have "slope b = Inr (fst p, snd p)" using s by simp
  moreover have "length xt = n_particle (particle b)"
    using l by (simp add: n_particle_def)
  moreover have "\<forall>i < n_particle (particle b).
             xt ! i = P_x (particle b) ! i - (fst p * P_z (particle b) ! i + snd p)"
    using n l by (simp add: n_particle_def)
  moreover have "\<exists>c'. slope (b\<lparr>particle := (particle b)\<lparr>P_x := xt\<rparr>\<rparr>) = Inr (0, c')"
    using r by blast
  ultimately show ?thesis using xt m by blast
qed

theorem x_transform_removes_slope_witness:
  "handed_out (externals_with bent_rows) (\<lambda>p (e::unit). p) (file_beam bent_rows)
   \<and> 2 \<le> n_particle (particle (file_beam bent_rows))
   \<and> slope (file_beam bent_rows) = Inr (3 / 2, 1)
   \<and> x_transform (file_beam bent_rows) = Inr [1 / 2, - 1, 1 / 2]
   \<and> fst (projr (slope ((file_beam bent_rows)
         \<lparr>particle := (particle (file_beam bent_rows))\<lparr>P_x := [1 / 2, - 1, 1 / 2]\<rparr>\<rparr>))) = 0"
proof -
  let ?t = "\<lambda>p (e::unit). p" and ?b = "file_beam bent_rows"
  have h: "handed_out (externals_with bent_rows) ?t ?b"
    using bent_beam_facts(1) by (rule handed_out.constructed)
  have n: "2 \<le> n_particle (particle ?b)"
    by (simp add: n_particle_def bent_beam_facts)
  have s: "slope ?b = Inr (3 / 2, 1)"
    by (simp add: slope_def bent_beam_facts np_polyfit1_def Let_def)
  have x: "x_transform ?b = Inr [1 / 2, - 1, 1 / 2]"
    by (simp add: x_transform_eq s bent_beam_facts)
  from x_transform_removes_slope [OF h n] obtain xt c'
    where "x_transform ?b = Inr xt"
      and "slope (?b\<lparr>particle := (particle ?b)\<lparr>P_x := xt\<rparr>\<rparr>) = Inr (0, c')"
    by blast
  with x have "fst (projr (slope (?b\<lparr>particle := (particle ?b)
                  \<lparr>P_x := [1 / 2, - 1, 1 / 2]\<rparr>\<rparr>))) = 0"
    by simp
  with h n s x show ?thesis by simp
qed

end
